theory Spec2Isabelle
  imports Main "HOL-Library.Multiset"
begin

section \<open>Configuration and data model\<close>

text \<open>
  The module \<open>config\<close> is imported by \<open>agent.py\<close> and \<open>trading.py\<close>; the constants
  they read are collected in one record and passed to every function that reads them.
\<close>

record config =
  TRADE_RANGE :: int
  RAND_MODE :: int
  ENERGY_LOSS_PER_TURN :: int
  AGENT_MEMORY_SIZE :: int

text \<open>
  Both \<open>self.inventory\<close> and \<open>self.consumption_rates\<close> are dictionaries with the two
  keys \<open>'red'\<close> and \<open>'green'\<close>.
\<close>

record resources =
  red :: int
  green :: int

text \<open>
  \<open>get_current_observation\<close> formats its result as text; the model keeps the values that
  the text is formatted from.
\<close>

record observation =
  obs_position :: "int \<times> int"
  obs_cell :: string
  obs_red :: int
  obs_green :: int
  obs_agents :: int
  obs_energy :: int

text \<open>One entry of \<open>self.memory\<close>: the values \<open>add_memory\<close> formats into a line.\<close>

record memory_entry =
  mem_step :: int
  mem_action :: string
  mem_observation :: observation
  mem_outcome :: string
  mem_energy :: int
  mem_inventory :: resources

record agent =
  name :: string
  position :: "int \<times> int"
  inventory :: resources
  energy :: int
  alive :: bool
  consumption_rates :: resources
  actions_taken :: "string list"
  memory :: "memory_entry list"
  step_count :: int

text \<open>
  Modelled from the spec: the class \<open>Environment\<close> (module \<open>environment\<close>) is not part of
  the sources. The spec gives it a square, 0-indexed grid whose cells hold a resource
  marker or nothing, with \<open>get_cell_content\<close>, \<open>clear_cell\<close> and \<open>size\<close>.
\<close>

record environment =
  env_size :: int
  cells :: "int \<times> int \<Rightarrow> string option"

definition get_cell_content :: "environment \<Rightarrow> int \<Rightarrow> int \<Rightarrow> string option" where
  "get_cell_content env x y = cells env (x, y)"

definition clear_cell :: "environment \<Rightarrow> int \<Rightarrow> int \<Rightarrow> environment" where
  "clear_cell env x y = env\<lparr>cells := (cells env)((x, y) := None)\<rparr>"

text \<open>
  The keyword arguments of one call of \<open>get_agent_action\<close> (module \<open>llm\<close>, not part of
  the sources); \<open>grid_image_base64\<close> is always \<open>None\<close> and is left out. The decision
  backend is a parameter: a function from the request to the returned string, \<open>None\<close>
  when nothing is returned.
\<close>

record request =
  req_agent_name :: string
  req_position :: "int \<times> int"
  req_inventory :: resources
  req_cell_content :: "string option"
  req_energy :: int
  req_consumption_rate :: resources
  req_memory :: "memory_entry list"
  req_retry_message :: "string option"

type_synonym policy = "request \<Rightarrow> string option"

datatype py_error = IndexError | KeyError | AttributeError

text \<open>
  The module \<open>random\<close>: a stream of draws, consumed from the front. \<open>random.choice\<close>
  raises on an empty sequence; every call below is guarded by the source so that
  its argument is not empty.
\<close>

type_synonym rng = "nat \<Rightarrow> nat"

definition rng_tail :: "rng \<Rightarrow> rng" where
  "rng_tail r = (\<lambda>n. r (Suc n))"

definition choice :: "rng \<Rightarrow> 'a list \<Rightarrow> 'a \<times> rng" where
  "choice r xs = (xs ! (r 0 mod length xs), rng_tail r)"

text \<open>\<open>random.random() < 0.5\<close>: one draw, true on an even one.\<close>

definition random_below_half :: "rng \<Rightarrow> bool \<times> rng" where
  "random_below_half r = (even (r 0), rng_tail r)"

section \<open>Strings\<close>

fun str_nat :: "nat \<Rightarrow> string" where
  "str_nat n =
     (if n < 10 then [char_of (48 + n)]
      else str_nat (n div 10) @ [char_of (48 + n mod 10)])"

declare str_nat.simps [simp del]

definition str_int :: "int \<Rightarrow> string" where
  "str_int i = (if i < 0 then CHR ''-'' # str_nat (nat (- i)) else str_nat (nat i))"

text \<open>
  \<open>str.split()\<close> without arguments: the maximal runs of characters that are not white
  space. A \<open>char\<close> is read as a code point below 256.
\<close>

definition is_space :: "char \<Rightarrow> bool" where
  "is_space c =
     (let n = (of_char c :: nat)
      in (9 \<le> n \<and> n \<le> 13) \<or> (28 \<le> n \<and> n \<le> 32) \<or> n = 133 \<or> n = 160)"

fun split_from :: "string \<Rightarrow> string \<Rightarrow> string list" where
  "split_from cur [] = (if cur = [] then [] else [cur])"
| "split_from cur (c # cs) =
     (if is_space c then (if cur = [] then split_from [] cs else cur # split_from [] cs)
      else split_from (cur @ [c]) cs)"

definition split :: "string \<Rightarrow> string list" where
  "split s = split_from [] s"

definition startswith :: "string \<Rightarrow> string \<Rightarrow> bool" where
  "startswith s p = (take (length p) s = p)"

section \<open>The agent (agent.py)\<close>

text \<open>Membership in, and update of, a dictionary with the keys \<open>'red'\<close> and \<open>'green'\<close>.\<close>

definition in_inventory :: "string \<Rightarrow> bool" where
  "in_inventory item = (item = ''red'' \<or> item = ''green'')"

definition inventory_add :: "string \<Rightarrow> int \<Rightarrow> resources \<Rightarrow> resources" where
  "inventory_add item d rs =
     (if item = ''red'' then rs\<lparr>red := red rs + d\<rparr>
      else if item = ''green'' then rs\<lparr>green := green rs + d\<rparr>
      else rs)"

text \<open>
  \<open>self.memory = self.memory[-AGENT_MEMORY_SIZE:]\<close>, with Python's slice: the last
  \<open>n\<close> entries for a positive \<open>n\<close>, the whole list for 0 (\<open>-0\<close> is the index 0), and
  the list without its first \<open>-n\<close> entries for a negative \<open>n\<close>.
\<close>

definition slice_last :: "int \<Rightarrow> 'a list \<Rightarrow> 'a list" where
  "slice_last n xs =
     (if n > 0 then drop (length xs - nat n) xs
      else drop (nat (- n)) xs)"

definition add_memory :: "config \<Rightarrow> observation \<Rightarrow> string \<Rightarrow> string \<Rightarrow> agent \<Rightarrow> agent" where
  "add_memory cfg obs action outcome a =
     (let entry = \<lparr>mem_step = step_count a, mem_action = action, mem_observation = obs,
                   mem_outcome = outcome, mem_energy = energy a,
                   mem_inventory = inventory a\<rparr>;
          mem = memory a @ [entry]
      in a\<lparr>memory := (if int (length mem) > AGENT_MEMORY_SIZE cfg
                        then slice_last (AGENT_MEMORY_SIZE cfg) mem else mem)\<rparr>)"

text \<open>
  \<open>get_current_observation\<close>. The source skips the acting agent in \<open>all_agents\<close> by
  object identity (\<open>other is not self\<close>); here the list \<open>others\<close> is \<open>all_agents\<close>
  without the acting agent. A cell whose content is a key of the counter dictionary
  (\<open>'red'\<close>, \<open>'green'\<close>, \<open>'agents'\<close>) is counted under that key.
\<close>

definition window :: "environment \<Rightarrow> int \<Rightarrow> int \<Rightarrow> (int \<times> int) list" where
  "window env x y =
     concat (map (\<lambda>dx. concat (map (\<lambda>dy.
        (if 0 \<le> x + dx \<and> x + dx < env_size env \<and> 0 \<le> y + dy \<and> y + dy < env_size env
         then [(x + dx, y + dy)] else [])) [-1, 0, 1])) [-1, 0, 1])"

definition count_cells :: "environment \<Rightarrow> int \<Rightarrow> int \<Rightarrow> string \<Rightarrow> int" where
  "count_cells env x y k =
     int (length (filter (\<lambda>p. get_cell_content env (fst p) (snd p) = Some k) (window env x y)))"

definition get_current_observation :: "agent \<Rightarrow> environment \<Rightarrow> agent list \<Rightarrow> observation" where
  "get_current_observation a env others =
     (let x = fst (position a); y = snd (position a);
          cell = (case get_cell_content env x y of
                    None \<Rightarrow> ''empty''
                  | Some c \<Rightarrow> if c = [] then ''empty'' else c);
          close = filter (\<lambda>other. alive other
                     \<and> \<bar>fst (position other) - x\<bar> \<le> 1 \<and> \<bar>snd (position other) - y\<bar> \<le> 1) others
      in \<lparr>obs_position = position a, obs_cell = cell,
          obs_red = count_cells env x y ''red'',
          obs_green = count_cells env x y ''green'',
          obs_agents = count_cells env x y ''agents'' + int (length close),
          obs_energy = energy a\<rparr>)"

text \<open>
  The dictionary of the four target cells, indexed by the direction: \<open>None\<close> is the
  \<open>KeyError\<close> of a direction that is not a key.
\<close>

definition new_pos :: "environment \<Rightarrow> int \<Rightarrow> int \<Rightarrow> string \<Rightarrow> (int \<times> int) option" where
  "new_pos env x y direction =
     (if direction = ''up'' then Some (max 0 (x - 1), y)
      else if direction = ''down'' then Some (min (env_size env - 1) (x + 1), y)
      else if direction = ''left'' then Some (x, max 0 (y - 1))
      else if direction = ''right'' then Some (x, min (env_size env - 1) (y + 1))
      else None)"

text \<open>
  The request of one pass through the loop \<open>for _ in range(2)\<close>, and the action the
  pass works on: \<open>get_agent_action(...) or "do nothing"\<close> replaces \<open>None\<close> and the
  empty string by \<open>"do nothing"\<close>.
\<close>

definition make_request :: "agent \<Rightarrow> string option \<Rightarrow> string option \<Rightarrow> request" where
  "make_request a cell retry =
     \<lparr>req_agent_name = name a, req_position = position a,
      req_inventory = inventory a, req_cell_content = cell,
      req_energy = energy a, req_consumption_rate = consumption_rates a,
      req_memory = memory a, req_retry_message = retry\<rparr>"

definition requested_action :: "policy \<Rightarrow> request \<Rightarrow> string" where
  "requested_action pol req =
     (case pol req of
        None \<Rightarrow> ''do nothing''
      | Some s \<Rightarrow> if s = [] then ''do nothing'' else s)"

text \<open>
  What the rest of the pass leaves behind: the value of \<open>result\<close> (or the exception
  raised), the agent, the environment and the variable \<open>retry\<close>.
\<close>

record attempt =
  att_result :: "py_error + string"
  att_agent :: agent
  att_env :: environment
  att_retry :: "string option"

text \<open>The last two statements of the pass: \<open>self.add_memory(obs, action, result)\<close> and
  \<open>return result\<close>.\<close>

definition recorded ::
  "config \<Rightarrow> observation \<Rightarrow> string \<Rightarrow> string \<Rightarrow> agent \<Rightarrow> environment \<Rightarrow> string option
     \<Rightarrow> attempt" where
  "recorded cfg obs action result a env retry =
     \<lparr>att_result = Inr result, att_agent = add_memory cfg obs action result a,
      att_env = env, att_retry = retry\<rparr>"

definition raised :: "py_error \<Rightarrow> agent \<Rightarrow> environment \<Rightarrow> string option \<Rightarrow> attempt" where
  "raised e a env retry = \<lparr>att_result = Inl e, att_agent = a, att_env = env, att_retry = retry\<rparr>"

text \<open>
  The chain of \<open>if\<close> and \<open>elif\<close> of the pass, on the action and the agent after
  \<open>self.actions_taken.append(action)\<close>.
\<close>

definition resolve_action ::
  "config \<Rightarrow> (int \<times> int) list \<Rightarrow> observation \<Rightarrow> int \<Rightarrow> int \<Rightarrow> string option \<Rightarrow> string
     \<Rightarrow> agent \<Rightarrow> environment \<Rightarrow> attempt" where
  "resolve_action cfg occupied obs x y retry action a env =
     (if startswith action ''move'' then
        (case split action of
           w # direction # rest \<Rightarrow>
             (case new_pos env x y direction of
                None \<Rightarrow> raised KeyError a env retry
              | Some np \<Rightarrow>
                  if np \<notin> set occupied \<and> np \<noteq> position a then
                    recorded cfg obs action
                      (''moved '' @ direction @ '' (energy: '' @ str_int (energy a) @ '')'')
                      (a\<lparr>position := np\<rparr>) env retry
                  else
                    recorded cfg obs action ''move blocked: other agent or wall'' a env
                      (Some (''move '' @ direction @ '' blocked'')))
         | _ \<Rightarrow> raised IndexError a env retry)
      else if action = ''collect'' then
        (case get_cell_content env x y of
           Some item \<Rightarrow>
             if item \<noteq> [] \<and> in_inventory item then
               recorded cfg obs action (''collected '' @ item)
                 (a\<lparr>inventory := inventory_add item 1 (inventory a)\<rparr>)
                 (clear_cell env x y) retry
             else recorded cfg obs action ''nothing to collect'' a env retry
         | None \<Rightarrow> recorded cfg obs action ''nothing to collect'' a env retry)
      else if action = ''eat red'' \<and> red (inventory a) > 0 then
        recorded cfg obs action (''ate red (+'' @ str_int (red (consumption_rates a)) @ '')'')
          (a\<lparr>inventory := (inventory a)\<lparr>red := red (inventory a) - 1\<rparr>,
             energy := energy a + red (consumption_rates a)\<rparr>) env retry
      else if action = ''eat green'' \<and> green (inventory a) > 0 then
        recorded cfg obs action (''ate green (+'' @ str_int (green (consumption_rates a)) @ '')'')
          (a\<lparr>inventory := (inventory a)\<lparr>green := green (inventory a) - 1\<rparr>,
             energy := energy a + green (consumption_rates a)\<rparr>) env retry
      else if action = ''do nothing'' then
        recorded cfg obs action ''did nothing'' a env retry
      else
        recorded cfg obs action ''failed to act'' a env
          (Some (''action '' @ [CHR 0x27] @ action @ [CHR 0x27] @ '' invalid'')))"

text \<open>
  What \<open>decide_and_act\<close> leaves behind: the returned string or the exception that
  leaves the function, the agent and the environment as mutated up to that point, the
  requests sent to the decision backend in order, and the random source.
\<close>

record step_result =
  res_outcome :: "py_error + string"
  res_agent :: agent
  res_env :: environment
  res_requests :: "request list"
  res_rng :: rng

text \<open>
  The loop \<open>for _ in range(2)\<close>, by the number of passes that remain. The last statement
  of the body is \<open>return result\<close>, on every path: a pass that does not raise returns from
  the function, whatever passes remain and whatever it assigned to \<open>retry\<close>. The code
  after the loop records \<open>"failed both retries"\<close> and calls
  \<open>self.update_movement_history\<close>, a method that exists only inside a comment:
  \<open>AttributeError\<close>.
\<close>

fun retry_loop ::
  "nat \<Rightarrow> config \<Rightarrow> policy \<Rightarrow> (int \<times> int) list \<Rightarrow> observation \<Rightarrow> int \<Rightarrow> int
     \<Rightarrow> string option \<Rightarrow> rng \<Rightarrow> string option \<Rightarrow> request list \<Rightarrow> agent \<Rightarrow> environment
     \<Rightarrow> step_result" where
  "retry_loop 0 cfg pol occupied obs x y cell r retry reqs a env =
     \<lparr>res_outcome = Inl AttributeError,
      res_agent = add_memory cfg obs ''no valid action'' ''failed both retries'' a,
      res_env = env, res_requests = reqs, res_rng = r\<rparr>"
| "retry_loop (Suc n) cfg pol occupied obs x y cell r retry reqs a env =
     (let req = make_request a cell retry;
          action = requested_action pol req;
          att = resolve_action cfg occupied obs x y retry action
                  (a\<lparr>actions_taken := actions_taken a @ [action]\<rparr>) env
      in \<lparr>res_outcome = att_result att, res_agent = att_agent att, res_env = att_env att,
          res_requests = reqs @ [req], res_rng = r\<rparr>)"

text \<open>
  \<open>_random_action\<close>: the list of possible actions, in the order the source appends
  them. It always ends with \<open>"do nothing"\<close>, so \<open>random.choice\<close> never sees an empty
  list.
\<close>

definition random_actions :: "environment \<Rightarrow> (int \<times> int) list \<Rightarrow> agent \<Rightarrow> string list" where
  "random_actions env occupied a =
     (let x = fst (position a); y = snd (position a)
      in concat (map (\<lambda>direction.
                   (case new_pos env x y direction of
                      Some np \<Rightarrow> if np \<notin> set occupied \<and> np \<noteq> position a
                                 then [''move '' @ direction] else []
                    | None \<Rightarrow> [])) [''up'', ''down'', ''left'', ''right''])
         @ (case get_cell_content env x y of
              Some c \<Rightarrow> if c \<noteq> [] \<and> in_inventory c then [''collect''] else []
            | None \<Rightarrow> [])
         @ (if red (inventory a) > 0 then [''eat red''] else [])
         @ (if green (inventory a) > 0 then [''eat green''] else [])
         @ [''do nothing''])"

text \<open>The end of \<open>_random_action\<close>: the observation is taken after the action.\<close>

definition random_finish ::
  "config \<Rightarrow> rng \<Rightarrow> string \<Rightarrow> string \<Rightarrow> agent \<Rightarrow> environment \<Rightarrow> step_result" where
  "random_finish cfg r action result a env =
     \<lparr>res_outcome = Inr result,
      res_agent = add_memory cfg (get_current_observation a env []) action result a,
      res_env = env, res_requests = [], res_rng = r\<rparr>"

definition random_raise :: "rng \<Rightarrow> py_error \<Rightarrow> agent \<Rightarrow> environment \<Rightarrow> step_result" where
  "random_raise r e a env =
     \<lparr>res_outcome = Inl e, res_agent = a, res_env = env, res_requests = [], res_rng = r\<rparr>"

text \<open>
  The execution of the chosen action in \<open>_random_action\<close>, on the agent after
  \<open>self.actions_taken.append(action)\<close>: no check is repeated here.
\<close>

definition random_resolve ::
  "config \<Rightarrow> rng \<Rightarrow> int \<Rightarrow> int \<Rightarrow> string \<Rightarrow> agent \<Rightarrow> environment \<Rightarrow> step_result" where
  "random_resolve cfg r x y action a env =
     (if startswith action ''move'' then
        (case split action of
           w # direction # rest \<Rightarrow>
             (case new_pos env x y direction of
                None \<Rightarrow> random_raise r KeyError a env
              | Some np \<Rightarrow>
                  random_finish cfg r action
                    (''moved '' @ direction @ '' (energy: '' @ str_int (energy a) @ '')'')
                    (a\<lparr>position := np\<rparr>) env)
         | _ \<Rightarrow> random_raise r IndexError a env)
      else if action = ''collect'' then
        (case get_cell_content env x y of
           Some item \<Rightarrow>
             if in_inventory item then
               random_finish cfg r action (''collected '' @ item)
                 (a\<lparr>inventory := inventory_add item 1 (inventory a)\<rparr>) (clear_cell env x y)
             else random_raise r KeyError a env
         | None \<Rightarrow> random_raise r KeyError a env)
      else if action = ''eat red'' then
        random_finish cfg r action (''ate red (+'' @ str_int (red (consumption_rates a)) @ '')'')
          (a\<lparr>inventory := (inventory a)\<lparr>red := red (inventory a) - 1\<rparr>,
             energy := energy a + red (consumption_rates a)\<rparr>) env
      else if action = ''eat green'' then
        random_finish cfg r action
          (''ate green (+'' @ str_int (green (consumption_rates a)) @ '')'')
          (a\<lparr>inventory := (inventory a)\<lparr>green := green (inventory a) - 1\<rparr>,
             energy := energy a + green (consumption_rates a)\<rparr>) env
      else random_finish cfg r action ''did nothing'' a env)"

definition random_action ::
  "config \<Rightarrow> rng \<Rightarrow> environment \<Rightarrow> (int \<times> int) list \<Rightarrow> agent \<Rightarrow> step_result" where
  "random_action cfg r env occupied a =
     (let x = fst (position a); y = snd (position a);
          picked = choice r (random_actions env occupied a);
          action = fst picked
      in random_resolve cfg (snd picked) x y action
           (a\<lparr>actions_taken := actions_taken a @ [action]\<rparr>) env)"

text \<open>
  \<open>decide_and_act\<close>. The set \<open>occupied\<close> is kept as the list of its elements, and
  \<open>others\<close> is \<open>all_agents\<close> without the acting agent, as in
  \<open>get_current_observation\<close>.
\<close>

definition decide_and_act ::
  "config \<Rightarrow> policy \<Rightarrow> rng \<Rightarrow> agent \<Rightarrow> environment \<Rightarrow> agent list \<Rightarrow> step_result" where
  "decide_and_act cfg pol r a env others =
     (if \<not> alive a then
        \<lparr>res_outcome = Inr ''inactive'', res_agent = a, res_env = env,
         res_requests = [], res_rng = r\<rparr>
      else
        (let a1 = a\<lparr>step_count := step_count a + 1\<rparr>;
             a2 = a1\<lparr>energy := energy a1 - ENERGY_LOSS_PER_TURN cfg\<rparr>
         in
         if energy a2 \<le> 0 then
           \<lparr>res_outcome = Inr ''ran out of energy'', res_agent = a2\<lparr>alive := False\<rparr>,
            res_env = env, res_requests = [], res_rng = r\<rparr>
         else
           (let obs = get_current_observation a2 env others;
                x = fst (position a2); y = snd (position a2);
                cell = get_cell_content env x y;
                occupied = map position (filter alive others)
            in
            if RAND_MODE cfg = 1 then random_action cfg r env occupied a2
            else retry_loop 2 cfg pol occupied obs x y cell r None [] a2 env)))"

section \<open>The market (trading.py)\<close>

record trade_offer =
  offerer :: string
  target :: string
  offer_red :: int
  offer_green :: int
  request_red :: int
  request_green :: int
  step :: int

text \<open>
  The lines of \<open>Market.trade_log\<close> and of the list \<open>trading_events\<close> are formatted
  text; the model keeps the kind of each line and the offer it prints.
\<close>

datatype log_line = OfferLine trade_offer | ExecutedLine trade_offer

datatype trading_event =
    PhaseHeader int
  | Phase1Line
  | OfferEvent trade_offer
  | Phase2Line
  | AcceptedEvent trade_offer
  | CancelledEvent trade_offer
  | FailedEvent trade_offer
  | RejectedEvent trade_offer
  | Phase2Complete

record market =
  offers :: "trade_offer list"
  completed_trades :: "trade_offer list"
  trade_log :: "log_line list"

definition add_offer :: "market \<Rightarrow> trade_offer \<Rightarrow> market" where
  "add_offer m off = m\<lparr>offers := offers m @ [off], trade_log := trade_log m @ [OfferLine off]\<rparr>"

definition get_offers_for_agent :: "market \<Rightarrow> string \<Rightarrow> trade_offer list" where
  "get_offers_for_agent m agent_name = filter (\<lambda>off. target off = agent_name) (offers m)"

text \<open>\<open>list.remove\<close> deletes the first element equal to its argument.\<close>

definition remove_offer :: "market \<Rightarrow> trade_offer \<Rightarrow> market" where
  "remove_offer m off = (if off \<in> set (offers m) then m\<lparr>offers := remove1 off (offers m)\<rparr> else m)"

definition clear_offers :: "market \<Rightarrow> market" where
  "clear_offers m = m\<lparr>offers := []\<rparr>"

text \<open>
  The roster is a list of agents; an agent object is its index in the list. The
  dictionary \<open>agents_dict\<close> maps a name to the last agent of the roster that carries it
  (a later entry of a dictionary comprehension replaces an earlier one).
\<close>

definition agents_dict_get :: "agent list \<Rightarrow> string \<Rightarrow> nat option" where
  "agents_dict_get agents nm =
     (case filter (\<lambda>i. name (agents ! i) = nm) (rev [0..<length agents]) of
        [] \<Rightarrow> None
      | i # rest \<Rightarrow> Some i)"

text \<open>One in-place update of the inventory of the agent at index \<open>i\<close>.\<close>

definition adjust_inventory :: "nat \<Rightarrow> (resources \<Rightarrow> resources) \<Rightarrow> agent list \<Rightarrow> agent list" where
  "adjust_inventory i f agents = agents[i := (agents ! i)\<lparr>inventory := f (inventory (agents ! i))\<rparr>]"

text \<open>The re-validation of \<open>execute_trade\<close>: the condition of its second \<open>if\<close>.\<close>

definition resources_available :: "agent \<Rightarrow> agent \<Rightarrow> trade_offer \<Rightarrow> bool" where
  "resources_available offerer_agent target_agent off =
     (red (inventory offerer_agent) \<ge> offer_red off
      \<and> green (inventory offerer_agent) \<ge> offer_green off
      \<and> red (inventory target_agent) \<ge> request_red off
      \<and> green (inventory target_agent) \<ge> request_green off)"

text \<open>
  \<open>Market.execute_trade\<close>: the eight assignments in the order of the source, each on
  the roster the one before it left, so that an offer whose two names are the same
  agent is executed as the source executes it.
\<close>

definition execute_trade :: "market \<Rightarrow> trade_offer \<Rightarrow> agent list \<Rightarrow> bool \<times> market \<times> agent list" where
  "execute_trade m off agents =
     (case agents_dict_get agents (offerer off) of
        None \<Rightarrow> (False, m, agents)
      | Some oi \<Rightarrow>
          (case agents_dict_get agents (target off) of
             None \<Rightarrow> (False, m, agents)
           | Some ti \<Rightarrow>
               if \<not> alive (agents ! oi) \<or> \<not> alive (agents ! ti) then (False, m, agents)
               else if resources_available (agents ! oi) (agents ! ti) off then
                 (let s1 = adjust_inventory oi (\<lambda>rs. rs\<lparr>red := red rs - offer_red off\<rparr>) agents;
                      s2 = adjust_inventory oi (\<lambda>rs. rs\<lparr>green := green rs - offer_green off\<rparr>) s1;
                      s3 = adjust_inventory oi (\<lambda>rs. rs\<lparr>red := red rs + request_red off\<rparr>) s2;
                      s4 = adjust_inventory oi (\<lambda>rs. rs\<lparr>green := green rs + request_green off\<rparr>) s3;
                      s5 = adjust_inventory ti (\<lambda>rs. rs\<lparr>red := red rs - request_red off\<rparr>) s4;
                      s6 = adjust_inventory ti (\<lambda>rs. rs\<lparr>green := green rs - request_green off\<rparr>) s5;
                      s7 = adjust_inventory ti (\<lambda>rs. rs\<lparr>red := red rs + offer_red off\<rparr>) s6;
                      s8 = adjust_inventory ti (\<lambda>rs. rs\<lparr>green := green rs + offer_green off\<rparr>) s7
                  in (True,
                      m\<lparr>completed_trades := completed_trades m @ [off],
                        trade_log := trade_log m @ [ExecutedLine off]\<rparr>,
                      s8))
               else (False, m, agents)))"

definition calculate_manhattan_distance :: "int \<times> int \<Rightarrow> int \<times> int \<Rightarrow> int" where
  "calculate_manhattan_distance pos1 pos2 = \<bar>fst pos1 - fst pos2\<bar> + \<bar>snd pos1 - snd pos2\<bar>"

definition get_agents_in_trade_range :: "agent \<Rightarrow> agent list \<Rightarrow> int \<Rightarrow> agent list" where
  "get_agents_in_trade_range a all_agents trade_range =
     (if trade_range \<le> 0 then []
      else filter (\<lambda>other. alive other \<and> name other \<noteq> name a
                     \<and> calculate_manhattan_distance (position a) (position other) \<le> trade_range)
             all_agents)"

section \<open>Offers and acceptance (agent.py)\<close>

text \<open>\<open>_random_trade_offer\<close>: the offer types are (offer red, offer green, request red, request green).\<close>

definition random_offer_types :: "agent \<Rightarrow> (int \<times> int \<times> int \<times> int) list" where
  "random_offer_types a =
     (if red (inventory a) \<ge> 2 then [(2, 0, 0, 1)] else [])
     @ (if green (inventory a) \<ge> 2 then [(0, 2, 1, 0)] else [])
     @ (if red (inventory a) \<ge> 1 then [(1, 0, 0, 2)] else [])
     @ (if green (inventory a) \<ge> 1 then [(0, 1, 2, 0)] else [])"

definition random_trade_offer :: "rng \<Rightarrow> agent \<Rightarrow> agent list \<Rightarrow> int \<Rightarrow> trade_offer option \<times> rng" where
  "random_trade_offer r a nearby_agents stp =
     (if red (inventory a) < 1 \<and> green (inventory a) < 1 then (None, r)
      else
        (let picked = choice r nearby_agents;
             target_agent = fst picked; r1 = snd picked
         in if random_offer_types a = [] then (None, r1)
            else
              (let picked2 = choice r1 (random_offer_types a);
                   ty = fst picked2; r2 = snd picked2
               in (Some \<lparr>offerer = name a, target = name target_agent,
                         offer_red = fst ty, offer_green = fst (snd ty),
                         request_red = fst (snd (snd ty)), request_green = snd (snd (snd ty)),
                         step = stp\<rparr>, r2))))"

definition consider_trade_offer ::
  "config \<Rightarrow> rng \<Rightarrow> agent \<Rightarrow> agent list \<Rightarrow> int \<Rightarrow> trade_offer option \<times> rng" where
  "consider_trade_offer cfg r a nearby_agents stp =
     (if TRADE_RANGE cfg \<le> 0 \<or> nearby_agents = [] then (None, r)
      else if RAND_MODE cfg = 1 then random_trade_offer r a nearby_agents stp
      else
        (let red_inventory = red (inventory a);
             green_inventory = green (inventory a);
             red_rate = red (consumption_rates a);
             green_rate = green (consumption_rates a)
         in
         if red_rate > green_rate \<and> green_inventory > 0 then
           (let picked = choice r nearby_agents
            in (Some \<lparr>offerer = name a, target = name (fst picked),
                      offer_red = 0, offer_green = min 1 green_inventory,
                      request_red = 1, request_green = 0, step = stp\<rparr>, snd picked))
         else if green_rate > red_rate \<and> red_inventory > 0 then
           (let picked = choice r nearby_agents
            in (Some \<lparr>offerer = name a, target = name (fst picked),
                      offer_red = min 1 red_inventory, offer_green = 0,
                      request_red = 0, request_green = 1, step = stp\<rparr>, snd picked))
         else (None, r)))"

text \<open>The loop of the random mode of \<open>consider_trade_acceptance\<close>.\<close>

fun random_acceptance :: "rng \<Rightarrow> agent \<Rightarrow> trade_offer list \<Rightarrow> trade_offer option \<times> rng" where
  "random_acceptance r a [] = (None, r)"
| "random_acceptance r a (off # rest) =
     (if red (inventory a) \<ge> request_red off \<and> green (inventory a) \<ge> request_green off then
        (if fst (random_below_half r) then (Some off, snd (random_below_half r))
         else random_acceptance (snd (random_below_half r)) a rest)
      else random_acceptance r a rest)"

fun first_wanted :: "agent \<Rightarrow> trade_offer list \<Rightarrow> trade_offer option" where
  "first_wanted a [] = None"
| "first_wanted a (off # rest) =
     (if red (inventory a) \<ge> request_red off \<and> green (inventory a) \<ge> request_green off
         \<and> ((red (consumption_rates a) > green (consumption_rates a) \<and> offer_red off > 0)
            \<or> (green (consumption_rates a) > red (consumption_rates a) \<and> offer_green off > 0)
            \<or> red (consumption_rates a) = green (consumption_rates a))
      then Some off
      else first_wanted a rest)"

definition consider_trade_acceptance ::
  "config \<Rightarrow> rng \<Rightarrow> agent \<Rightarrow> trade_offer list \<Rightarrow> int \<Rightarrow> trade_offer option \<times> rng" where
  "consider_trade_acceptance cfg r a offs stp =
     (if offs = [] then (None, r)
      else if RAND_MODE cfg = 1 then random_acceptance r a offs
      else (first_wanted a offs, r))"

section \<open>The trading phase (trading.py)\<close>

text \<open>
  What \<open>process_trading_phase\<close> works on: the market, the roster (the agents it
  mutates through \<open>agents_dict\<close>), the events logged so far and the random source.
\<close>

record phase_state =
  ph_market :: market
  ph_agents :: "agent list"
  ph_events :: "trading_event list"
  ph_rng :: rng

text \<open>Phase 1, the body of the loop over the roster.\<close>

definition make_offer :: "config \<Rightarrow> int \<Rightarrow> agent \<Rightarrow> phase_state \<Rightarrow> phase_state" where
  "make_offer cfg stp a s =
     (if alive a then
        (let nearby_agents = get_agents_in_trade_range a (ph_agents s) (TRADE_RANGE cfg)
         in if nearby_agents \<noteq> [] then
              (let considered = consider_trade_offer cfg (ph_rng s) a nearby_agents stp
               in case fst considered of
                    Some off \<Rightarrow>
                      s\<lparr>ph_market := add_offer (ph_market s) off,
                        ph_events := ph_events s @ [OfferEvent off],
                        ph_rng := snd considered\<rparr>
                  | None \<Rightarrow> s\<lparr>ph_rng := snd considered\<rparr>)
            else s)
      else s)"

text \<open>
  Phase 2 starts with the list \<open>agents_with_offers\<close>: for every living agent with an
  offer addressed to it, the agent (its index in the roster) and the list of those
  offers as \<open>get_offers_for_agent\<close> returns it at that moment.
\<close>

definition agents_with_offers :: "market \<Rightarrow> agent list \<Rightarrow> (nat \<times> trade_offer list) list" where
  "agents_with_offers m agents =
     concat (map (\<lambda>i.
        (if alive (agents ! i) then
           (let offs = get_offers_for_agent m (name (agents ! i))
            in if offs \<noteq> [] then [(i, offs)] else [])
         else [])) [0..<length agents])"

definition conflicts_with :: "trade_offer \<Rightarrow> trade_offer \<Rightarrow> bool" where
  "conflicts_with accepted_offer off =
     (offerer off = offerer accepted_offer \<or> target off = offerer accepted_offer
      \<or> offerer off = target accepted_offer \<or> target off = target accepted_offer)"

text \<open>
  Phase 2, the body of the loop over \<open>agents_with_offers\<close>. The agent decides on the
  list \<open>offs\<close> of its entry, with its inventory as it is now.
\<close>

definition process_acceptance ::
  "config \<Rightarrow> int \<Rightarrow> nat \<times> trade_offer list \<Rightarrow> phase_state \<Rightarrow> phase_state" where
  "process_acceptance cfg stp entry s =
     (let i = fst entry; offs = snd entry;
          decided = consider_trade_acceptance cfg (ph_rng s) (ph_agents s ! i) offs stp;
          r1 = snd decided
      in case fst decided of
           Some accepted_offer \<Rightarrow>
             (let executed = execute_trade (ph_market s) accepted_offer (ph_agents s);
                  success = fst executed; m1 = fst (snd executed);
                  agents1 = snd (snd executed)
              in if success then
                   (let m2 = remove_offer m1 accepted_offer;
                        conflicting_offers = filter (conflicts_with accepted_offer) (offers m2);
                        m3 = fold (\<lambda>conflict m. remove_offer m conflict) conflicting_offers m2
                    in \<lparr>ph_market = m3, ph_agents = agents1,
                        ph_events = ph_events s @ [AcceptedEvent accepted_offer]
                                      @ map CancelledEvent conflicting_offers,
                        ph_rng = r1\<rparr>)
                 else
                   \<lparr>ph_market = remove_offer m1 accepted_offer, ph_agents = agents1,
                    ph_events = ph_events s @ [FailedEvent accepted_offer], ph_rng = r1\<rparr>)
         | None \<Rightarrow>
             \<lparr>ph_market = fold (\<lambda>off m. remove_offer m off) offs (ph_market s),
              ph_agents = ph_agents s,
              ph_events = ph_events s @ map RejectedEvent offs, ph_rng = r1\<rparr>)"

text \<open>
  \<open>process_trading_phase\<close>. The outcome of \<open>random.shuffle\<close> is the parameter
  \<open>shuffle\<close>: the function from the list to its new order.
\<close>

definition process_trading_phase ::
  "config \<Rightarrow> ((nat \<times> trade_offer list) list \<Rightarrow> (nat \<times> trade_offer list) list) \<Rightarrow> rng
     \<Rightarrow> agent list \<Rightarrow> market \<Rightarrow> int \<Rightarrow> phase_state" where
  "process_trading_phase cfg shuffle r agents m stp =
     (if TRADE_RANGE cfg \<le> 0 then
        \<lparr>ph_market = m, ph_agents = agents, ph_events = [], ph_rng = r\<rparr>
      else
        (let s0 = \<lparr>ph_market = m, ph_agents = agents,
                   ph_events = [PhaseHeader stp, Phase1Line], ph_rng = r\<rparr>;
             s1 = fold (make_offer cfg stp) agents s0;
             s2 = s1\<lparr>ph_events := ph_events s1 @ [Phase2Line]\<rparr>;
             order = shuffle (agents_with_offers (ph_market s2) (ph_agents s2));
             s3 = fold (process_acceptance cfg stp) order s2
         in s3\<lparr>ph_market := clear_offers (ph_market s3),
               ph_events := ph_events s3 @ [Phase2Complete]\<rparr>))"

section \<open>Runs of the simulation\<close>

text \<open>
  The simulation (\<open>main.py\<close>) owns the roster, the environment and the market. Its
  loop calls \<open>decide_and_act\<close> for the agents in roster order, then
  \<open>process_trading_phase\<close>, then replenishes the environment. An operation is one of
  these calls, or a direct call of a method of the market; a run is any list of them.
  The decision backend and the random source of a call are part of the operation.
\<close>

record world =
  w_agents :: "agent list"
  w_env :: environment
  w_market :: market

datatype operation =
    Act nat policy rng
  | AddOffer trade_offer
  | ExecuteTrade trade_offer
  | TradingPhase "(nat \<times> trade_offer list) list \<Rightarrow> (nat \<times> trade_offer list) list" rng int
  | Replenish environment

definition others_of :: "nat \<Rightarrow> agent list \<Rightarrow> agent list" where
  "others_of i agents = take i agents @ drop (Suc i) agents"

fun apply_operation :: "config \<Rightarrow> operation \<Rightarrow> world \<Rightarrow> world" where
  "apply_operation cfg (Act i pol r) w =
     (if i < length (w_agents w) then
        (let res = decide_and_act cfg pol r (w_agents w ! i) (w_env w) (others_of i (w_agents w))
         in w\<lparr>w_agents := (w_agents w)[i := res_agent res], w_env := res_env res\<rparr>)
      else w)"
| "apply_operation cfg (AddOffer off) w = w\<lparr>w_market := add_offer (w_market w) off\<rparr>"
| "apply_operation cfg (ExecuteTrade off) w =
     (let executed = execute_trade (w_market w) off (w_agents w)
      in w\<lparr>w_market := fst (snd executed), w_agents := snd (snd executed)\<rparr>)"
| "apply_operation cfg (TradingPhase shuffle r stp) w =
     (let s = process_trading_phase cfg shuffle r (w_agents w) (w_market w) stp
      in w\<lparr>w_market := ph_market s, w_agents := ph_agents s\<rparr>)"
| "apply_operation cfg (Replenish env) w = w\<lparr>w_env := env\<rparr>"

definition run :: "config \<Rightarrow> operation list \<Rightarrow> world \<Rightarrow> world" where
  "run cfg ops w = fold (apply_operation cfg) ops w"

section \<open>Notions the properties are stated with\<close>

text \<open>An agent named by an offer is in the roster and alive.\<close>

definition party_alive :: "agent list \<Rightarrow> string \<Rightarrow> bool" where
  "party_alive agents nm =
     (case agents_dict_get agents nm of None \<Rightarrow> False | Some i \<Rightarrow> alive (agents ! i))"

definition nonneg_inventory :: "agent \<Rightarrow> bool" where
  "nonneg_inventory a = (0 \<le> red (inventory a) \<and> 0 \<le> green (inventory a))"

text \<open>The quantities of an offer are amounts: none is negative.\<close>

definition nonneg_offer :: "trade_offer \<Rightarrow> bool" where
  "nonneg_offer off =
     (0 \<le> offer_red off \<and> 0 \<le> offer_green off \<and> 0 \<le> request_red off \<and> 0 \<le> request_green off)"

text \<open>An outcome of \<open>random.shuffle\<close> is a rearrangement of the list.\<close>

definition rearranges :: "('a list \<Rightarrow> 'a list) \<Rightarrow> bool" where
  "rearranges f = (\<forall>xs. mset (f xs) = mset xs)"

fun well_formed :: "operation \<Rightarrow> bool" where
  "well_formed (AddOffer off) = nonneg_offer off"
| "well_formed (ExecuteTrade off) = nonneg_offer off"
| "well_formed (TradingPhase shuffle r stp) = rearranges shuffle"
| "well_formed (Act i pol r) = True"
| "well_formed (Replenish env) = True"

text \<open>The number of entries of a ledger that name an agent, as offerer or as target.\<close>

definition trades_of :: "string \<Rightarrow> trade_offer list \<Rightarrow> nat" where
  "trades_of nm ledger = length (filter (\<lambda>off. offerer off = nm \<or> target off = nm) ledger)"

text \<open>
  The target cell in the words of the specification: one step in the direction, each
  coordinate clamped to the bounds of the grid.
\<close>

definition clamp :: "int \<Rightarrow> int \<Rightarrow> int \<Rightarrow> int" where
  "clamp lo hi v = max lo (min hi v)"

definition displacement :: "string \<Rightarrow> int \<times> int" where
  "displacement direction =
     (if direction = ''up'' then (-1, 0)
      else if direction = ''down'' then (1, 0)
      else if direction = ''left'' then (0, -1)
      else (0, 1))"

definition clamped_target :: "int \<Rightarrow> int \<times> int \<Rightarrow> string \<Rightarrow> int \<times> int" where
  "clamped_target n p direction =
     (clamp 0 (n - 1) (fst p + fst (displacement direction)),
      clamp 0 (n - 1) (snd p + snd (displacement direction)))"

definition is_direction :: "string \<Rightarrow> bool" where
  "is_direction d = (d = ''up'' \<or> d = ''down'' \<or> d = ''left'' \<or> d = ''right'')"

section \<open>Example data\<close>

text \<open>
  \<open>Agent.__init__\<close>, with the inventory, the energy and the consumption rates it reads
  from \<open>config\<close> as arguments; \<open>Market.__init__\<close>.
\<close>

definition new_agent :: "string \<Rightarrow> int \<times> int \<Rightarrow> resources \<Rightarrow> int \<Rightarrow> resources \<Rightarrow> agent" where
  "new_agent nm start_pos initial_inventory initial_energy rates =
     \<lparr>name = nm, position = start_pos, inventory = initial_inventory,
      energy = initial_energy, alive = True, consumption_rates = rates,
      actions_taken = [], memory = [], step_count = 0\<rparr>"

definition new_market :: market where
  "new_market = \<lparr>offers = [], completed_trades = [], trade_log = []\<rparr>"

definition example_config :: config where
  "example_config =
     \<lparr>TRADE_RANGE = 1, RAND_MODE = 0, ENERGY_LOSS_PER_TURN = 1, AGENT_MEMORY_SIZE = 5\<rparr>"

text \<open>An empty grid of size 5.\<close>

definition example_env :: environment where
  "example_env = \<lparr>env_size = 5, cells = (\<lambda>p. None)\<rparr>"

text \<open>
  Four agents with the rates \<open>main.py\<close> gives them at \<open>--con_rate 1\<close>. Agent2 at (0,1)
  has Agent3 at (0,0) and Agent4 at (0,2) in trade range 1; Agent1 is out of range.
\<close>

definition example_roster :: "agent list" where
  "example_roster =
     [new_agent ''Agent1'' (4, 4) \<lparr>red = 0, green = 0\<rparr> 10 \<lparr>red = 4, green = 0\<rparr>,
      new_agent ''Agent2'' (0, 1) \<lparr>red = 0, green = 2\<rparr> 10 \<lparr>red = 3, green = 1\<rparr>,
      new_agent ''Agent3'' (0, 0) \<lparr>red = 1, green = 0\<rparr> 10 \<lparr>red = 2, green = 2\<rparr>,
      new_agent ''Agent4'' (0, 2) \<lparr>red = 1, green = 0\<rparr> 10 \<lparr>red = 1, green = 3\<rparr>]"

text \<open>The two agents and the offer of the example of the specification.\<close>

definition example_pair :: "agent list" where
  "example_pair =
     [new_agent ''Agent1'' (0, 0) \<lparr>red = 0, green = 3\<rparr> 10 \<lparr>red = 2, green = 1\<rparr>,
      new_agent ''Agent2'' (0, 1) \<lparr>red = 2, green = 0\<rparr> 10 \<lparr>red = 1, green = 2\<rparr>]"

definition example_offer :: trade_offer where
  "example_offer =
     \<lparr>offerer = ''Agent1'', target = ''Agent2'', offer_red = 0, offer_green = 1,
      request_red = 1, request_green = 0, step = 1\<rparr>"

text \<open>
  An offer of more green than its offerer holds, pending for the second agent of the
  example, at the start of the acceptance phase.
\<close>

definition stale_offer :: trade_offer where
  "stale_offer = example_offer\<lparr>offer_green := 5\<rparr>"

definition example_phase :: phase_state where
  "example_phase =
     \<lparr>ph_market = new_market\<lparr>offers := [stale_offer]\<rparr>, ph_agents = example_pair,
      ph_events = [], ph_rng = (\<lambda>n. 0)\<rparr>"

text \<open>The state at the start of a trading phase with an empty market.\<close>

definition phase_start :: "agent list \<Rightarrow> phase_state" where
  "phase_start agents =
     \<lparr>ph_market = new_market, ph_agents = agents, ph_events = [], ph_rng = (\<lambda>n. 0)\<rparr>"

text \<open>The pair of the example, with a first agent that holds nothing.\<close>

definition empty_handed_pair :: "agent list" where
  "empty_handed_pair =
     [new_agent ''Agent1'' (0, 0) \<lparr>red = 0, green = 0\<rparr> 10 \<lparr>red = 2, green = 1\<rparr>,
      new_agent ''Agent2'' (0, 1) \<lparr>red = 2, green = 0\<rparr> 10 \<lparr>red = 1, green = 2\<rparr>]"

text \<open>
  A decision backend that answers a first request with an action outside the grammar
  and a request that carries a retry hint with \<open>"do nothing"\<close>; one that first walks
  into the wall and, given a hint, walks down.
\<close>

definition hint_aware_policy :: policy where
  "hint_aware_policy req =
     (if req_retry_message req = None then Some ''fly'' else Some ''do nothing'')"

definition wall_then_down_policy :: policy where
  "wall_then_down_policy req =
     (if req_retry_message req = None then Some ''move up'' else Some ''move down'')"

text \<open>An agent at (0,3), on the upper edge of the grid of size 5.\<close>

definition edge_agent :: agent where
  "edge_agent = new_agent ''Agent1'' (0, 3) \<lparr>red = 0, green = 0\<rparr> 10 \<lparr>red = 2, green = 1\<rparr>"

text \<open>
  The offers made in the example roster: Agent2 offers green for red to Agent3, and
  Agent4 offers red for green to Agent2.
\<close>

definition offer_2_to_3 :: trade_offer where
  "offer_2_to_3 =
     \<lparr>offerer = ''Agent2'', target = ''Agent3'', offer_red = 0, offer_green = 1,
      request_red = 1, request_green = 0, step = 1\<rparr>"

definition offer_4_to_2 :: trade_offer where
  "offer_4_to_2 =
     \<lparr>offerer = ''Agent4'', target = ''Agent2'', offer_red = 1, offer_green = 0,
      request_red = 0, request_green = 1, step = 1\<rparr>"

text \<open>
  A world and a run: Agent2 eats green, a trading phase follows, Agent4's offer is
  executed directly, the environment is replenished. The same world with Agent2 dead.
\<close>

definition example_world :: world where
  "example_world = \<lparr>w_agents = example_roster, w_env = example_env, w_market = new_market\<rparr>"

definition example_ops :: "operation list" where
  "example_ops =
     [Act 1 (\<lambda>req. Some ''eat green'') (\<lambda>n. 0),
      TradingPhase (\<lambda>xs. xs) (\<lambda>n. 0) 1,
      ExecuteTrade offer_4_to_2,
      Replenish example_env]"

definition dead_world :: world where
  "dead_world =
     example_world\<lparr>w_agents := example_roster[1 := (example_roster ! 1)\<lparr>alive := False\<rparr>]\<rparr>"

text \<open>
  The exchange in the words of the specification. An agent of the roster loses some
  amounts and gains others; in an exchange the offerer loses the offered and gains the
  requested amounts, and the target loses the requested and gains the offered amounts.
\<close>

definition lose_and_gain :: "nat \<Rightarrow> int \<times> int \<Rightarrow> int \<times> int \<Rightarrow> agent list \<Rightarrow> agent list" where
  "lose_and_gain i lost gained agents =
     agents[i := (agents ! i)\<lparr>inventory :=
       \<lparr>red = red (inventory (agents ! i)) - fst lost + fst gained,
        green = green (inventory (agents ! i)) - snd lost + snd gained\<rparr>\<rparr>]"

definition exchanged :: "trade_offer \<Rightarrow> nat \<Rightarrow> nat \<Rightarrow> agent list \<Rightarrow> agent list" where
  "exchanged off oi ti agents =
     lose_and_gain ti (request_red off, request_green off) (offer_red off, offer_green off)
       (lose_and_gain oi (offer_red off, offer_green off) (request_red off, request_green off)
          agents)"

text \<open>The example offer, pending for the second agent of the example.\<close>

definition accepting_phase :: phase_state where
  "accepting_phase =
     \<lparr>ph_market = new_market\<lparr>offers := [example_offer]\<rparr>, ph_agents = example_pair,
      ph_events = [], ph_rng = (\<lambda>n. 0)\<rparr>"

text \<open>The example configuration with the random mode on.\<close>

definition random_config :: config where
  "random_config = example_config\<lparr>RAND_MODE := 1\<rparr>"

text \<open>
  The energy an outcome stands for: the consumption rate of the resource when the
  outcome is that of an \<open>eat\<close> action that was carried out, nothing otherwise.
\<close>

definition energy_gained :: "agent \<Rightarrow> py_error + string \<Rightarrow> int" where
  "energy_gained a outcome =
     (if outcome = Inr (''ate red (+'' @ str_int (red (consumption_rates a)) @ '')'')
      then red (consumption_rates a)
      else if outcome = Inr (''ate green (+'' @ str_int (green (consumption_rates a)) @ '')'')
      then green (consumption_rates a)
      else 0)"

section \<open>Facts about the market\<close>

lemma agents_dict_get_SomeD:
  assumes "agents_dict_get agents nm = Some i"
  shows "i < length agents \<and> name (agents ! i) = nm"
proof -
  from assms obtain rest where
    "filter (\<lambda>i. name (agents ! i) = nm) (rev [0..<length agents]) = i # rest"
    by (auto simp: agents_dict_get_def split: list.splits)
  then have "i \<in> set (filter (\<lambda>i. name (agents ! i) = nm) (rev [0..<length agents]))"
    by simp
  then show ?thesis by simp
qed

lemma length_adjust_inventory [simp]: "length (adjust_inventory i f agents) = length agents"
  by (simp add: adjust_inventory_def)

lemma nth_adjust_inventory:
  "(adjust_inventory i f agents) ! k =
     (if k = i \<and> i < length agents then (agents ! i)\<lparr>inventory := f (inventory (agents ! i))\<rparr>
      else agents ! k)"
  by (cases "i < length agents") (simp_all add: adjust_inventory_def nth_list_update list_update_beyond)

lemma execute_trade_refused:
  "\<not> fst (execute_trade m off agents) \<Longrightarrow> execute_trade m off agents = (False, m, agents)"
  by (cases "agents_dict_get agents (offerer off)"; cases "agents_dict_get agents (target off)")
     (simp_all add: execute_trade_def Let_def split: if_splits)

lemma execute_trade_accepted_iff:
  "fst (execute_trade m off agents) =
     (\<exists>oi ti. agents_dict_get agents (offerer off) = Some oi
        \<and> agents_dict_get agents (target off) = Some ti
        \<and> alive (agents ! oi) \<and> alive (agents ! ti)
        \<and> resources_available (agents ! oi) (agents ! ti) off)"
  by (cases "agents_dict_get agents (offerer off)"; cases "agents_dict_get agents (target off)")
     (auto simp add: execute_trade_def Let_def)

lemma execute_trade_market:
  "fst (execute_trade m off agents) \<Longrightarrow>
     fst (snd (execute_trade m off agents)) =
       m\<lparr>completed_trades := completed_trades m @ [off],
         trade_log := trade_log m @ [ExecutedLine off]\<rparr>"
  by (auto simp add: execute_trade_def Let_def split: option.splits if_splits)

lemma execute_trade_length [simp]:
  "length (snd (snd (execute_trade m off agents))) = length agents"
  by (simp add: execute_trade_def Let_def split: option.splits)

lemma adjust_inventory_twice:
  "adjust_inventory i g (adjust_inventory i f agents) = adjust_inventory i (\<lambda>rs. g (f rs)) agents"
  by (cases "i < length agents") (simp_all add: adjust_inventory_def list_update_beyond)

lemma execute_trade_result:
  assumes "fst (execute_trade m off agents)"
    and "agents_dict_get agents (offerer off) = Some oi"
    and "agents_dict_get agents (target off) = Some ti"
  shows "snd (snd (execute_trade m off agents)) =
     adjust_inventory ti
       (\<lambda>rs. rs\<lparr>red := red rs - request_red off + offer_red off,
                green := green rs - request_green off + offer_green off\<rparr>)
       (adjust_inventory oi
          (\<lambda>rs. rs\<lparr>red := red rs - offer_red off + request_red off,
                   green := green rs - offer_green off + request_green off\<rparr>) agents)"
proof -
  from assms have go: "alive (agents ! oi)" "alive (agents ! ti)"
    "resources_available (agents ! oi) (agents ! ti) off"
    by (simp_all add: execute_trade_accepted_iff)
  show ?thesis
    unfolding execute_trade_def Let_def adjust_inventory_twice
    by (simp add: assms(2,3) go)
qed

lemma execute_trade_nth:
  assumes "fst (execute_trade m off agents)"
    and "agents_dict_get agents (offerer off) = Some oi"
    and "agents_dict_get agents (target off) = Some ti"
  shows "snd (snd (execute_trade m off agents)) ! k =
     (if oi = ti then
        (if k = oi then (agents ! k)\<lparr>inventory := (inventory (agents ! k))\<lparr>
              red := red (inventory (agents ! k)) - offer_red off + request_red off
                       - request_red off + offer_red off,
              green := green (inventory (agents ! k)) - offer_green off + request_green off
                       - request_green off + offer_green off\<rparr>\<rparr>
         else agents ! k)
      else if k = oi then (agents ! k)\<lparr>inventory := (inventory (agents ! k))\<lparr>
              red := red (inventory (agents ! k)) - offer_red off + request_red off,
              green := green (inventory (agents ! k)) - offer_green off + request_green off\<rparr>\<rparr>
      else if k = ti then (agents ! k)\<lparr>inventory := (inventory (agents ! k))\<lparr>
              red := red (inventory (agents ! k)) - request_red off + offer_red off,
              green := green (inventory (agents ! k)) - request_green off + offer_green off\<rparr>\<rparr>
      else agents ! k)"
proof -
  have "oi < length agents" "ti < length agents"
    using assms(2,3) agents_dict_get_SomeD by blast+
  then show ?thesis
    by (simp add: execute_trade_result [OF assms] nth_adjust_inventory)
qed

lemma remove_offer_offers: "offers (remove_offer m off) = remove1 off (offers m)"
  by (simp add: remove_offer_def remove1_idem)

lemma remove_offer_completed [simp]:
  "completed_trades (remove_offer m off) = completed_trades m"
  by (simp add: remove_offer_def)

lemma fold_remove_offer_completed [simp]:
  "completed_trades (fold (\<lambda>off m. remove_offer m off) offs m) = completed_trades m"
  by (induction offs arbitrary: m) simp_all

lemma party_alive_iff:
  "party_alive agents nm = (\<exists>i. agents_dict_get agents nm = Some i \<and> alive (agents ! i))"
  by (simp add: party_alive_def split: option.splits)

lemma execute_trade_parties:
  "fst (execute_trade m off agents) \<Longrightarrow>
     party_alive agents (offerer off) \<and> party_alive agents (target off)"
  by (auto simp: execute_trade_accepted_iff party_alive_iff)

lemma execute_trade_ledger:
  "completed_trades (fst (snd (execute_trade m off agents))) =
     (if fst (execute_trade m off agents) then completed_trades m @ [off] else completed_trades m)"
  by (cases "fst (execute_trade m off agents)")
     (simp_all add: execute_trade_market execute_trade_refused)

lemma resources_update_both:
  "(rs :: resources)\<lparr>red := a, green := b\<rparr> = \<lparr>red = a, green = b\<rparr>"
  by (cases rs) simp

lemma process_acceptance_failed:
  assumes "fst (consider_trade_acceptance cfg (ph_rng s) (ph_agents s ! i) offs stp) = Some off"
    and "\<not> fst (execute_trade (ph_market s) off (ph_agents s))"
  shows "process_acceptance cfg stp (i, offs) s =
     \<lparr>ph_market = remove_offer (ph_market s) off, ph_agents = ph_agents s,
      ph_events = ph_events s @ [FailedEvent off],
      ph_rng = snd (consider_trade_acceptance cfg (ph_rng s) (ph_agents s ! i) offs stp)\<rparr>"
  using assms execute_trade_refused [OF assms(2)]
  by (simp add: process_acceptance_def Let_def)

lemma execute_trade_exchange:
  assumes oi: "agents_dict_get agents (offerer off) = Some oi"
    and ti: "agents_dict_get agents (target off) = Some ti"
    and ne: "oi \<noteq> ti"
    and live: "alive (agents ! oi)" "alive (agents ! ti)"
    and av: "resources_available (agents ! oi) (agents ! ti) off"
  shows "execute_trade m off agents =
     (True,
      m\<lparr>completed_trades := completed_trades m @ [off],
        trade_log := trade_log m @ [ExecutedLine off]\<rparr>,
      agents[oi := (agents ! oi)\<lparr>inventory := \<lparr>
               red = red (inventory (agents ! oi)) - offer_red off + request_red off,
               green = green (inventory (agents ! oi)) - offer_green off + request_green off\<rparr>\<rparr>,
             ti := (agents ! ti)\<lparr>inventory := \<lparr>
               red = red (inventory (agents ! ti)) - request_red off + offer_red off,
               green = green (inventory (agents ! ti)) - request_green off + offer_green off\<rparr>\<rparr>])"
proof -
  have ok: "fst (execute_trade m off agents)"
    using oi ti live av by (auto simp: execute_trade_accepted_iff)
  have "snd (snd (execute_trade m off agents)) =
      agents[oi := (agents ! oi)\<lparr>inventory := \<lparr>
               red = red (inventory (agents ! oi)) - offer_red off + request_red off,
               green = green (inventory (agents ! oi)) - offer_green off + request_green off\<rparr>\<rparr>,
             ti := (agents ! ti)\<lparr>inventory := \<lparr>
               red = red (inventory (agents ! ti)) - request_red off + offer_red off,
               green = green (inventory (agents ! ti)) - request_green off + offer_green off\<rparr>\<rparr>]"
    using ne
    by (simp add: execute_trade_result [OF ok oi ti] adjust_inventory_def resources_update_both)
  with ok execute_trade_market [OF ok] show ?thesis
    by (metis prod.collapse)
qed

lemma choice_in_set: "xs \<noteq> [] \<Longrightarrow> fst (choice r xs) \<in> set xs"
  by (simp add: choice_def)

lemma consider_trade_offer_normal:
  assumes "RAND_MODE cfg \<noteq> 1" "0 < TRADE_RANGE cfg" "nearby \<noteq> []"
  shows "fst (consider_trade_offer cfg r a nearby stp) =
     (if red (consumption_rates a) > green (consumption_rates a) \<and> green (inventory a) > 0
      then Some \<lparr>offerer = name a, target = name (fst (choice r nearby)),
                 offer_red = 0, offer_green = 1, request_red = 1, request_green = 0,
                 step = stp\<rparr>
      else if green (consumption_rates a) > red (consumption_rates a) \<and> red (inventory a) > 0
      then Some \<lparr>offerer = name a, target = name (fst (choice r nearby)),
                 offer_red = 1, offer_green = 0, request_red = 0, request_green = 1,
                 step = stp\<rparr>
      else None)"
  using assms by (simp add: consider_trade_offer_def Let_def)

lemma make_offer_offers:
  "offers (ph_market (make_offer cfg stp a s)) =
     (if alive a \<and> get_agents_in_trade_range a (ph_agents s) (TRADE_RANGE cfg) \<noteq> [] then
        (case fst (consider_trade_offer cfg (ph_rng s) a
                     (get_agents_in_trade_range a (ph_agents s) (TRADE_RANGE cfg)) stp) of
           Some off \<Rightarrow> offers (ph_market s) @ [off]
         | None \<Rightarrow> offers (ph_market s))
      else offers (ph_market s))"
  by (simp add: make_offer_def Let_def add_offer_def split: option.splits)

lemma in_trade_range_positive:
  "get_agents_in_trade_range a agents n \<noteq> [] \<Longrightarrow> 0 < n"
  by (simp add: get_agents_in_trade_range_def split: if_splits)

section \<open>Facts about the step of an agent\<close>

lemma add_memory_fields [simp]:
  "name (add_memory cfg obs action outcome a) = name a"
  "position (add_memory cfg obs action outcome a) = position a"
  "inventory (add_memory cfg obs action outcome a) = inventory a"
  "energy (add_memory cfg obs action outcome a) = energy a"
  "alive (add_memory cfg obs action outcome a) = alive a"
  "consumption_rates (add_memory cfg obs action outcome a) = consumption_rates a"
  "actions_taken (add_memory cfg obs action outcome a) = actions_taken a"
  "step_count (add_memory cfg obs action outcome a) = step_count a"
  by (simp_all add: add_memory_def Let_def)

lemma decide_and_act_dead:
  "\<not> alive a \<Longrightarrow>
     decide_and_act cfg pol r a env others =
       \<lparr>res_outcome = Inr ''inactive'', res_agent = a, res_env = env,
        res_requests = [], res_rng = r\<rparr>"
  by (simp add: decide_and_act_def)

lemma decide_and_act_starved:
  "alive a \<Longrightarrow> energy a - ENERGY_LOSS_PER_TURN cfg \<le> 0 \<Longrightarrow>
     decide_and_act cfg pol r a env others =
       \<lparr>res_outcome = Inr ''ran out of energy'',
        res_agent = a\<lparr>step_count := step_count a + 1,
                      energy := energy a - ENERGY_LOSS_PER_TURN cfg, alive := False\<rparr>,
        res_env = env, res_requests = [], res_rng = r\<rparr>"
  by (simp add: decide_and_act_def Let_def)

lemma decide_and_act_attempt:
  assumes "alive a" "0 < energy a - ENERGY_LOSS_PER_TURN cfg" "RAND_MODE cfg \<noteq> 1"
  shows "decide_and_act cfg pol r a env others =
     (let a2 = a\<lparr>step_count := step_count a + 1,
                  energy := energy a - ENERGY_LOSS_PER_TURN cfg\<rparr>;
          x = fst (position a); y = snd (position a);
          req = make_request a2 (get_cell_content env x y) None;
          action = requested_action pol req;
          att = resolve_action cfg (map position (filter alive others))
                  (get_current_observation a2 env others) x y None action
                  (a2\<lparr>actions_taken := actions_taken a @ [action]\<rparr>) env
      in \<lparr>res_outcome = att_result att, res_agent = att_agent att, res_env = att_env att,
          res_requests = [req], res_rng = r\<rparr>)"
  using assms by (simp add: decide_and_act_def Let_def numeral_2_eq_2)

lemma decide_and_act_random:
  assumes "alive a" "0 < energy a - ENERGY_LOSS_PER_TURN cfg" "RAND_MODE cfg = 1"
  shows "decide_and_act cfg pol r a env others =
     random_action cfg r env (map position (filter alive others))
       (a\<lparr>step_count := step_count a + 1, energy := energy a - ENERGY_LOSS_PER_TURN cfg\<rparr>)"
  using assms by (simp add: decide_and_act_def Let_def)

lemma random_finish_requests [simp]:
  "res_requests (random_finish cfg r action result a env) = []"
  by (simp add: random_finish_def)

lemma random_raise_requests [simp]: "res_requests (random_raise r e a env) = []"
  by (simp add: random_raise_def)

lemma random_resolve_requests [simp]:
  "res_requests (random_resolve cfg r x y action a env) = []"
  unfolding random_resolve_def
  by (cases "split action"; cases "tl (split action)"; cases "get_cell_content env x y";
      cases "new_pos env x y (hd (tl (split action)))") simp_all

lemma random_action_requests [simp]:
  "res_requests (random_action cfg r env occupied a) = []"
  by (simp add: random_action_def Let_def)

lemma decide_and_act_requests:
  "res_requests (decide_and_act cfg pol r a env others) =
     (if alive a \<and> 0 < energy a - ENERGY_LOSS_PER_TURN cfg \<and> RAND_MODE cfg \<noteq> 1
      then [make_request
              (a\<lparr>step_count := step_count a + 1,
                 energy := energy a - ENERGY_LOSS_PER_TURN cfg\<rparr>)
              (get_cell_content env (fst (position a)) (snd (position a))) None]
      else [])"
proof (cases "alive a")
  case False
  then show ?thesis by (simp add: decide_and_act_dead)
next
  case True
  show ?thesis
  proof (cases "0 < energy a - ENERGY_LOSS_PER_TURN cfg")
    case False
    with True show ?thesis by (simp add: decide_and_act_starved)
  next
    case pos: True
    show ?thesis
    proof (cases "RAND_MODE cfg = 1")
      case True
      with \<open>alive a\<close> pos show ?thesis by (simp add: decide_and_act_random)
    next
      case False
      with \<open>alive a\<close> pos show ?thesis
        by (simp add: decide_and_act_attempt Let_def)
    qed
  qed
qed

lemma requested_action_no_answer:
  "pol req = None \<or> pol req = Some [] \<Longrightarrow> requested_action pol req = ''do nothing''"
  by (auto simp: requested_action_def)

lemma resolve_do_nothing:
  "resolve_action cfg occupied obs x y retry ''do nothing'' a env =
     recorded cfg obs ''do nothing'' ''did nothing'' a env retry"
  by (simp add: resolve_action_def startswith_def)

lemma recorded_fields [simp]:
  "att_result (recorded cfg obs action result a env retry) = Inr result"
  "att_agent (recorded cfg obs action result a env retry) = add_memory cfg obs action result a"
  "att_env (recorded cfg obs action result a env retry) = env"
  "att_retry (recorded cfg obs action result a env retry) = retry"
  by (simp_all add: recorded_def)

lemma example_agent_fields:
  "alive (example_pair ! 0)" "energy (example_pair ! 0) = 10"
  "position (example_pair ! 0) = (0, 0)" "name (example_pair ! 0) = ''Agent1''"
  "inventory (example_pair ! 0) = \<lparr>red = 0, green = 3\<rparr>"
  "alive (example_pair ! 1)" "position (example_pair ! 1) = (0, 1)"
  by (simp_all add: example_pair_def new_agent_def)

lemma example_config_fields:
  "RAND_MODE example_config = 0" "ENERGY_LOSS_PER_TURN example_config = 1"
  "TRADE_RANGE example_config = 1" "AGENT_MEMORY_SIZE example_config = 5"
  by (simp_all add: example_config_def)

lemma move_action_parts:
  assumes "is_direction d"
  shows "startswith (''move '' @ d) ''move''" and "split (''move '' @ d) = [''move'', d]"
  using assms
  by (auto simp: is_direction_def startswith_def split_def is_space_def)

lemma new_pos_direction:
  assumes "is_direction d"
  shows "\<exists>np. new_pos env x y d = Some np"
  using assms by (auto simp: is_direction_def new_pos_def)

lemma resolve_move:
  assumes "is_direction d" and "new_pos env x y d = Some np"
  shows "resolve_action cfg occupied obs x y retry (''move '' @ d) a env =
     (if np \<notin> set occupied \<and> np \<noteq> position a then
        recorded cfg obs (''move '' @ d)
          (''moved '' @ d @ '' (energy: '' @ str_int (energy a) @ '')'')
          (a\<lparr>position := np\<rparr>) env retry
      else
        recorded cfg obs (''move '' @ d) ''move blocked: other agent or wall'' a env
          (Some (''move '' @ d @ '' blocked'')))"
  unfolding resolve_action_def
  by (simp only: move_action_parts [OF assms(1)] assms(2) if_True list.case option.case)

lemma new_pos_clamped:
  assumes "is_direction d"
    and "0 \<le> x" "x < env_size env" "0 \<le> y" "y < env_size env"
  shows "new_pos env x y d = Some (clamped_target (env_size env) (x, y) d)"
  using assms
  by (auto simp: is_direction_def new_pos_def clamped_target_def clamp_def displacement_def)

lemma requested_action_Some:
  "s \<noteq> [] \<Longrightarrow> requested_action (\<lambda>req. Some s) q = s"
  by (simp add: requested_action_def)

lemma decide_and_act_given:
  assumes "alive a" "0 < energy a - ENERGY_LOSS_PER_TURN cfg" "RAND_MODE cfg \<noteq> 1" "s \<noteq> []"
  shows "res_outcome (decide_and_act cfg (\<lambda>req. Some s) r a env others) =
       att_result (resolve_action cfg (map position (filter alive others))
         (get_current_observation
            (a\<lparr>step_count := step_count a + 1,
               energy := energy a - ENERGY_LOSS_PER_TURN cfg\<rparr>) env others)
         (fst (position a)) (snd (position a)) None s
         (a\<lparr>step_count := step_count a + 1,
            energy := energy a - ENERGY_LOSS_PER_TURN cfg,
            actions_taken := actions_taken a @ [s]\<rparr>) env)"
    and "res_agent (decide_and_act cfg (\<lambda>req. Some s) r a env others) =
       att_agent (resolve_action cfg (map position (filter alive others))
         (get_current_observation
            (a\<lparr>step_count := step_count a + 1,
               energy := energy a - ENERGY_LOSS_PER_TURN cfg\<rparr>) env others)
         (fst (position a)) (snd (position a)) None s
         (a\<lparr>step_count := step_count a + 1,
            energy := energy a - ENERGY_LOSS_PER_TURN cfg,
            actions_taken := actions_taken a @ [s]\<rparr>) env)"
    and "res_env (decide_and_act cfg (\<lambda>req. Some s) r a env others) =
       att_env (resolve_action cfg (map position (filter alive others))
         (get_current_observation
            (a\<lparr>step_count := step_count a + 1,
               energy := energy a - ENERGY_LOSS_PER_TURN cfg\<rparr>) env others)
         (fst (position a)) (snd (position a)) None s
         (a\<lparr>step_count := step_count a + 1,
            energy := energy a - ENERGY_LOSS_PER_TURN cfg,
            actions_taken := actions_taken a @ [s]\<rparr>) env)"
  using assms
  by (simp_all add: decide_and_act_attempt Let_def requested_action_Some)

lemma edge_agent_fields:
  "alive edge_agent" "energy edge_agent = 10" "position edge_agent = (0, 3)"
  by (simp_all add: edge_agent_def new_agent_def)

section \<open>Facts about the trading phase\<close>

lemma fold_invariant:
  assumes "P s" and "\<And>x s. x \<in> set xs \<Longrightarrow> P s \<Longrightarrow> P (f x s)"
  shows "P (fold f xs s)"
  using assms by (induction xs arbitrary: s) simp_all

lemma execute_trade_dead_unchanged:
  assumes "\<not> alive (agents ! k)"
  shows "snd (snd (execute_trade m off agents)) ! k = agents ! k"
proof (cases "fst (execute_trade m off agents)")
  case False
  then show ?thesis by (simp add: execute_trade_refused)
next
  case True
  then obtain oi ti where
    oi: "agents_dict_get agents (offerer off) = Some oi" and
    ti: "agents_dict_get agents (target off) = Some ti" and
    live: "alive (agents ! oi)" "alive (agents ! ti)"
    using execute_trade_accepted_iff by blast
  from assms live have "k \<noteq> oi" "k \<noteq> ti" by auto
  then show ?thesis
    by (simp add: execute_trade_nth [OF True oi ti])
qed

lemma execute_trade_nonneg_nth:
  assumes inv: "nonneg_inventory (agents ! k)" and off: "nonneg_offer off"
  shows "nonneg_inventory (snd (snd (execute_trade m off agents)) ! k)"
proof (cases "fst (execute_trade m off agents)")
  case False
  then show ?thesis using inv by (simp add: execute_trade_refused)
next
  case True
  then obtain oi ti where
    oi: "agents_dict_get agents (offerer off) = Some oi" and
    ti: "agents_dict_get agents (target off) = Some ti" and
    av: "resources_available (agents ! oi) (agents ! ti) off"
    using execute_trade_accepted_iff by blast
  show ?thesis
    using inv off av
    by (auto simp add: execute_trade_nth [OF True oi ti] nonneg_inventory_def nonneg_offer_def
          resources_available_def)
qed

lemma execute_trade_nonneg:
  assumes "\<forall>a \<in> set agents. nonneg_inventory a" and "nonneg_offer off"
  shows "\<forall>a \<in> set (snd (snd (execute_trade m off agents))). nonneg_inventory a"
proof
  fix a assume "a \<in> set (snd (snd (execute_trade m off agents)))"
  then obtain k where k: "k < length agents" "a = snd (snd (execute_trade m off agents)) ! k"
    by (auto simp: in_set_conv_nth)
  with assms(1) have "nonneg_inventory (agents ! k)" by simp
  with k assms(2) show "nonneg_inventory a"
    by (simp add: execute_trade_nonneg_nth)
qed

lemma execute_trade_offers [simp]:
  "offers (fst (snd (execute_trade m off agents))) = offers m"
  by (cases "fst (execute_trade m off agents)")
     (simp_all add: execute_trade_market execute_trade_refused)

lemma remove_offer_subset: "set (offers (remove_offer m off)) \<subseteq> set (offers m)"
  by (simp add: remove_offer_offers set_remove1_subset)

lemma fold_remove_offer_subset:
  "set (offers (fold (\<lambda>off m. remove_offer m off) offs m)) \<subseteq> set (offers m)"
proof (induction offs arbitrary: m)
  case Nil
  show ?case by simp
next
  case (Cons x xs)
  have "set (offers (fold (\<lambda>off m. remove_offer m off) xs (remove_offer m x)))
          \<subseteq> set (offers (remove_offer m x))"
    by (rule Cons.IH)
  also have "\<dots> \<subseteq> set (offers m)"
    by (rule remove_offer_subset)
  finally show ?case by simp
qed

lemma first_wanted_in: "first_wanted a offs = Some off \<Longrightarrow> off \<in> set offs"
  by (induction offs) (auto split: if_splits)

lemma random_acceptance_in: "fst (random_acceptance r a offs) = Some off \<Longrightarrow> off \<in> set offs"
  by (induction offs arbitrary: r) (auto split: if_splits)

lemma consider_trade_acceptance_in:
  "fst (consider_trade_acceptance cfg r a offs stp) = Some off \<Longrightarrow> off \<in> set offs"
  by (auto simp: consider_trade_acceptance_def first_wanted_in random_acceptance_in
        split: if_splits)

lemma process_acceptance_agents:
  "ph_agents (process_acceptance cfg stp e s) =
     (case fst (consider_trade_acceptance cfg (ph_rng s) (ph_agents s ! fst e) (snd e) stp) of
        Some off \<Rightarrow> snd (snd (execute_trade (ph_market s) off (ph_agents s)))
      | None \<Rightarrow> ph_agents s)"
  by (cases "fst (consider_trade_acceptance cfg (ph_rng s) (ph_agents s ! fst e) (snd e) stp)")
     (simp_all add: process_acceptance_def Let_def)

lemma process_acceptance_offers:
  "set (offers (ph_market (process_acceptance cfg stp e s))) \<subseteq> set (offers (ph_market s))"
proof (cases "fst (consider_trade_acceptance cfg (ph_rng s) (ph_agents s ! fst e) (snd e) stp)")
  case None
  then show ?thesis
    by (simp add: process_acceptance_def Let_def fold_remove_offer_subset)
next
  case (Some off)
  let ?m1 = "fst (snd (execute_trade (ph_market s) off (ph_agents s)))"
  have a: "set (offers (remove_offer ?m1 off)) \<subseteq> set (offers (ph_market s))"
    using remove_offer_subset [of ?m1 off] by simp
  have b: "set (offers (fold (\<lambda>conflict m. remove_offer m conflict) cs (remove_offer ?m1 off)))
             \<subseteq> set (offers (ph_market s))" for cs
    using fold_remove_offer_subset [of cs "remove_offer ?m1 off"] a by blast
  show ?thesis
    using Some a b by (simp add: process_acceptance_def Let_def)
qed

lemma process_acceptance_length [simp]:
  "length (ph_agents (process_acceptance cfg stp e s)) = length (ph_agents s)"
  by (simp add: process_acceptance_agents split: option.split)

lemma make_offer_agents [simp]: "ph_agents (make_offer cfg stp a s) = ph_agents s"
  by (simp add: make_offer_def Let_def split: option.split)

lemma fold_make_offer_agents [simp]:
  "ph_agents (fold (make_offer cfg stp) xs s) = ph_agents s"
  by (induction xs arbitrary: s) simp_all

lemma random_offer_types_nonneg:
  assumes "ty \<in> set (random_offer_types a)"
  shows "0 \<le> fst ty \<and> 0 \<le> fst (snd ty) \<and> 0 \<le> fst (snd (snd ty)) \<and> 0 \<le> snd (snd (snd ty))"
  using assms by (auto simp: random_offer_types_def split: if_splits)

lemma random_trade_offer_nonneg:
  assumes "fst (random_trade_offer r a nearby stp) = Some off"
  shows "nonneg_offer off"
proof -
  let ?r1 = "snd (choice r nearby)"
  let ?ty = "fst (choice ?r1 (random_offer_types a))"
  from assms have types: "random_offer_types a \<noteq> []"
    and off: "off = \<lparr>offerer = name a, target = name (fst (choice r nearby)),
                     offer_red = fst ?ty, offer_green = fst (snd ?ty),
                     request_red = fst (snd (snd ?ty)), request_green = snd (snd (snd ?ty)),
                     step = stp\<rparr>"
    by (auto simp: random_trade_offer_def Let_def split: if_splits)
  from types have "?ty \<in> set (random_offer_types a)"
    by (rule choice_in_set)
  then show ?thesis
    using random_offer_types_nonneg [of ?ty a] by (simp add: off nonneg_offer_def)
qed

lemma consider_trade_offer_nonneg:
  assumes "fst (consider_trade_offer cfg r a nearby stp) = Some off"
  shows "nonneg_offer off"
proof (cases "RAND_MODE cfg = 1")
  case True
  with assms have "fst (random_trade_offer r a nearby stp) = Some off"
    by (auto simp: consider_trade_offer_def split: if_splits)
  then show ?thesis by (rule random_trade_offer_nonneg)
next
  case False
  with assms show ?thesis
    by (auto simp: consider_trade_offer_def Let_def nonneg_offer_def split: if_splits)
qed

lemma make_offer_nonneg:
  assumes "\<forall>off \<in> set (offers (ph_market s)). nonneg_offer off"
  shows "\<forall>off \<in> set (offers (ph_market (make_offer cfg stp a s))). nonneg_offer off"
  using assms
  by (auto simp: make_offer_offers consider_trade_offer_nonneg split: option.splits if_splits)

lemma agents_with_offers_entries:
  assumes "e \<in> set (agents_with_offers m agents)"
  shows "set (snd e) \<subseteq> set (offers m)"
  using assms by (auto simp: agents_with_offers_def get_offers_for_agent_def Let_def split: if_splits)

lemma process_acceptance_nonneg:
  assumes inv: "\<forall>a \<in> set (ph_agents s). nonneg_inventory a"
    and offs: "\<forall>off \<in> set (snd e). nonneg_offer off"
  shows "\<forall>a \<in> set (ph_agents (process_acceptance cfg stp e s)). nonneg_inventory a"
proof (cases "fst (consider_trade_acceptance cfg (ph_rng s) (ph_agents s ! fst e) (snd e) stp)")
  case None
  with inv show ?thesis by (simp add: process_acceptance_agents)
next
  case (Some off)
  then have "off \<in> set (snd e)" by (rule consider_trade_acceptance_in)
  with offs have "nonneg_offer off" by blast
  with inv Some show ?thesis
    by (simp add: process_acceptance_agents execute_trade_nonneg)
qed

lemma process_acceptance_dead_unchanged:
  assumes "\<not> alive (ph_agents s ! k)"
  shows "ph_agents (process_acceptance cfg stp e s) ! k = ph_agents s ! k"
  using assms
  by (simp add: process_acceptance_agents execute_trade_dead_unchanged split: option.split)

lemma process_trading_phase_agents:
  "ph_agents (process_trading_phase cfg shuffle r agents m stp) =
     (if TRADE_RANGE cfg \<le> 0 then agents
      else ph_agents (fold (process_acceptance cfg stp)
             (shuffle (agents_with_offers
                (ph_market (fold (make_offer cfg stp) agents
                   \<lparr>ph_market = m, ph_agents = agents,
                    ph_events = [PhaseHeader stp, Phase1Line], ph_rng = r\<rparr>)) agents))
             ((fold (make_offer cfg stp) agents
                   \<lparr>ph_market = m, ph_agents = agents,
                    ph_events = [PhaseHeader stp, Phase1Line], ph_rng = r\<rparr>)
               \<lparr>ph_events := ph_events (fold (make_offer cfg stp) agents
                   \<lparr>ph_market = m, ph_agents = agents,
                    ph_events = [PhaseHeader stp, Phase1Line], ph_rng = r\<rparr>) @ [Phase2Line]\<rparr>)))"
  by (simp add: process_trading_phase_def Let_def)

lemma process_trading_phase_dead_unchanged:
  assumes "\<not> alive (agents ! k)"
  shows "ph_agents (process_trading_phase cfg shuffle r agents m stp) ! k = agents ! k"
proof (cases "TRADE_RANGE cfg \<le> 0")
  case True
  then show ?thesis by (simp add: process_trading_phase_agents)
next
  case False
  let ?s1 = "fold (make_offer cfg stp) agents
               \<lparr>ph_market = m, ph_agents = agents,
                ph_events = [PhaseHeader stp, Phase1Line], ph_rng = r\<rparr>"
  let ?s2 = "?s1\<lparr>ph_events := ph_events ?s1 @ [Phase2Line]\<rparr>"
  have start: "ph_agents ?s2 ! k = agents ! k"
    by simp
  have "ph_agents (fold (process_acceptance cfg stp) order ?s2) ! k = agents ! k" for order
  proof (rule fold_invariant [where P = "\<lambda>s. ph_agents s ! k = agents ! k"])
    show "ph_agents ?s2 ! k = agents ! k" by (rule start)
  next
    fix e and s :: phase_state
    assume "ph_agents s ! k = agents ! k"
    with assms show "ph_agents (process_acceptance cfg stp e s) ! k = agents ! k"
      by (simp add: process_acceptance_dead_unchanged)
  qed
  with False show ?thesis
    by (simp add: process_trading_phase_agents)
qed

lemma process_trading_phase_length [simp]:
  "length (ph_agents (process_trading_phase cfg shuffle r agents m stp)) = length agents"
proof (cases "TRADE_RANGE cfg \<le> 0")
  case True
  then show ?thesis by (simp add: process_trading_phase_agents)
next
  case False
  let ?s1 = "fold (make_offer cfg stp) agents
               \<lparr>ph_market = m, ph_agents = agents,
                ph_events = [PhaseHeader stp, Phase1Line], ph_rng = r\<rparr>"
  let ?s2 = "?s1\<lparr>ph_events := ph_events ?s1 @ [Phase2Line]\<rparr>"
  have "length (ph_agents (fold (process_acceptance cfg stp) order ?s2)) = length agents"
    for order
    by (rule fold_invariant [where P = "\<lambda>s. length (ph_agents s) = length agents"])
       simp_all
  with False show ?thesis
    by (simp add: process_trading_phase_agents)
qed

lemma process_trading_phase_offers [simp]:
  "0 < TRADE_RANGE cfg \<Longrightarrow>
     offers (ph_market (process_trading_phase cfg shuffle r agents m stp)) = []"
  by (simp add: process_trading_phase_def Let_def clear_offers_def)

lemma process_trading_phase_off [simp]:
  "TRADE_RANGE cfg \<le> 0 \<Longrightarrow>
     ph_market (process_trading_phase cfg shuffle r agents m stp) = m"
  by (simp add: process_trading_phase_def)

lemma process_trading_phase_nonneg:
  assumes inv: "\<forall>a \<in> set agents. nonneg_inventory a"
    and pending: "\<forall>off \<in> set (offers m). nonneg_offer off"
    and sh: "rearranges shuffle"
  shows "\<forall>a \<in> set (ph_agents (process_trading_phase cfg shuffle r agents m stp)).
           nonneg_inventory a"
proof (cases "TRADE_RANGE cfg \<le> 0")
  case True
  with inv show ?thesis by (simp add: process_trading_phase_agents)
next
  case False
  let ?s0 = "\<lparr>ph_market = m, ph_agents = agents,
              ph_events = [PhaseHeader stp, Phase1Line], ph_rng = r\<rparr>"
  let ?s1 = "fold (make_offer cfg stp) agents ?s0"
  let ?s2 = "?s1\<lparr>ph_events := ph_events ?s1 @ [Phase2Line]\<rparr>"
  let ?order = "shuffle (agents_with_offers (ph_market ?s1) agents)"
  let ?P = "\<lambda>s. (\<forall>a \<in> set (ph_agents s). nonneg_inventory a)"
  have offers1: "\<forall>off \<in> set (offers (ph_market ?s1)). nonneg_offer off"
    by (rule fold_invariant [where P = "\<lambda>s. \<forall>off \<in> set (offers (ph_market s)). nonneg_offer off"])
       (simp_all add: pending make_offer_nonneg)
  have "set ?order = set (agents_with_offers (ph_market ?s1) agents)"
    using sh by (auto simp: rearranges_def dest: mset_eq_setD)
  then have entries: "\<forall>off \<in> set (snd e). nonneg_offer off" if "e \<in> set ?order" for e
    using that agents_with_offers_entries [of e "ph_market ?s1" agents] offers1 by blast
  have "?P (fold (process_acceptance cfg stp) ?order ?s2)"
  proof (rule fold_invariant [where P = ?P])
    show "?P ?s2" using inv by simp
  next
    fix e and s :: phase_state
    assume "e \<in> set ?order" "?P s"
    then show "?P (process_acceptance cfg stp e s)"
      using entries process_acceptance_nonneg by blast
  qed
  with False show ?thesis
    by (simp add: process_trading_phase_agents)
qed

section \<open>Facts about inventories and runs\<close>

lemma raised_fields [simp]:
  "att_result (raised e a env retry) = Inl e"
  "att_agent (raised e a env retry) = a"
  "att_env (raised e a env retry) = env"
  "att_retry (raised e a env retry) = retry"
  by (simp_all add: raised_def)

lemma nonneg_inventory_add_memory [simp]:
  "nonneg_inventory (add_memory cfg obs action outcome a) = nonneg_inventory a"
  by (simp add: nonneg_inventory_def)

lemma nonneg_inventory_collect:
  "nonneg_inventory a \<Longrightarrow> nonneg_inventory (a\<lparr>inventory := inventory_add item 1 (inventory a)\<rparr>)"
  by (simp add: nonneg_inventory_def inventory_add_def)

lemma nonneg_inventory_other_fields [simp]:
  "nonneg_inventory (a\<lparr>position := p\<rparr>) = nonneg_inventory a"
  "nonneg_inventory (a\<lparr>actions_taken := ts\<rparr>) = nonneg_inventory a"
  "nonneg_inventory (a\<lparr>energy := e\<rparr>) = nonneg_inventory a"
  "nonneg_inventory (a\<lparr>step_count := n\<rparr>) = nonneg_inventory a"
  "nonneg_inventory (a\<lparr>alive := b\<rparr>) = nonneg_inventory a"
  by (simp_all add: nonneg_inventory_def)

lemma nonneg_inventory_eat:
  "nonneg_inventory a \<Longrightarrow> 0 < red (inventory a) \<Longrightarrow>
     nonneg_inventory (a\<lparr>inventory := (inventory a)\<lparr>red := red (inventory a) - 1\<rparr>\<rparr>)"
  "nonneg_inventory a \<Longrightarrow> 0 < green (inventory a) \<Longrightarrow>
     nonneg_inventory (a\<lparr>inventory := (inventory a)\<lparr>green := green (inventory a) - 1\<rparr>\<rparr>)"
  by (simp_all add: nonneg_inventory_def)

lemma resolve_action_nonneg:
  assumes "nonneg_inventory a"
  shows "nonneg_inventory (att_agent (resolve_action cfg occupied obs x y retry action a env))"
  unfolding resolve_action_def
  using assms
  by (cases "split action"; cases "tl (split action)"; cases "get_cell_content env x y";
      cases "new_pos env x y (hd (tl (split action)))")
     (simp_all add: nonneg_inventory_collect nonneg_inventory_eat)

lemma random_finish_fields [simp]:
  "res_agent (random_finish cfg r action result a env) =
     add_memory cfg (get_current_observation a env []) action result a"
  "res_env (random_finish cfg r action result a env) = env"
  "res_outcome (random_finish cfg r action result a env) = Inr result"
  by (simp_all add: random_finish_def)

lemma random_raise_fields [simp]:
  "res_agent (random_raise r e a env) = a"
  "res_env (random_raise r e a env) = env"
  "res_outcome (random_raise r e a env) = Inl e"
  by (simp_all add: random_raise_def)

lemma random_resolve_nonneg:
  assumes "nonneg_inventory a"
    and "action = ''eat red'' \<longrightarrow> 0 < red (inventory a)"
    and "action = ''eat green'' \<longrightarrow> 0 < green (inventory a)"
  shows "nonneg_inventory (res_agent (random_resolve cfg r x y action a env))"
proof -
  have red: "nonneg_inventory (a\<lparr>inventory := (inventory a)\<lparr>red := red (inventory a) - 1\<rparr>\<rparr>)"
    if "action = ''eat red''"
    using assms that by (simp add: nonneg_inventory_eat)
  have green: "nonneg_inventory (a\<lparr>inventory := (inventory a)\<lparr>green := green (inventory a) - 1\<rparr>\<rparr>)"
    if "action = ''eat green''"
    using assms that by (simp add: nonneg_inventory_eat)
  show ?thesis
    unfolding random_resolve_def
    using assms(1) red green
    by (cases "split action"; cases "tl (split action)"; cases "get_cell_content env x y";
        cases "new_pos env x y (hd (tl (split action)))")
       (simp_all add: nonneg_inventory_collect)
qed

lemma random_actions_eat:
  "''eat red'' \<in> set (random_actions env occupied a) \<Longrightarrow> 0 < red (inventory a)"
  "''eat green'' \<in> set (random_actions env occupied a) \<Longrightarrow> 0 < green (inventory a)"
  by (auto simp: random_actions_def Let_def split: option.splits if_splits)

lemma random_actions_not_empty: "random_actions env occupied a \<noteq> []"
  by (simp add: random_actions_def Let_def)

lemma random_action_nonneg:
  assumes "nonneg_inventory a"
  shows "nonneg_inventory (res_agent (random_action cfg r env occupied a))"
proof -
  let ?action = "fst (choice r (random_actions env occupied a))"
  have "?action \<in> set (random_actions env occupied a)"
    using random_actions_not_empty by (rule choice_in_set)
  then have "?action = ''eat red'' \<longrightarrow> 0 < red (inventory a)"
    "?action = ''eat green'' \<longrightarrow> 0 < green (inventory a)"
    using random_actions_eat [of env occupied a] by auto
  then show ?thesis
    using assms by (simp add: random_action_def Let_def random_resolve_nonneg)
qed

lemma decide_and_act_nonneg:
  assumes "nonneg_inventory a"
  shows "nonneg_inventory (res_agent (decide_and_act cfg pol r a env others))"
proof (cases "alive a")
  case False
  with assms show ?thesis by (simp add: decide_and_act_dead)
next
  case True
  show ?thesis
  proof (cases "0 < energy a - ENERGY_LOSS_PER_TURN cfg")
    case False
    with True assms show ?thesis by (simp add: decide_and_act_starved)
  next
    case pos: True
    show ?thesis
    proof (cases "RAND_MODE cfg = 1")
      case True
      with \<open>alive a\<close> pos assms show ?thesis
        by (simp add: decide_and_act_random random_action_nonneg)
    next
      case False
      with \<open>alive a\<close> pos assms show ?thesis
        by (simp add: decide_and_act_attempt Let_def resolve_action_nonneg)
    qed
  qed
qed

lemma apply_operation_length [simp]:
  "length (w_agents (apply_operation cfg op w)) = length (w_agents w)"
  by (cases op) (simp_all add: Let_def)

lemma apply_operation_dead_unchanged:
  assumes "\<not> alive (w_agents w ! k)"
  shows "w_agents (apply_operation cfg op w) ! k = w_agents w ! k"
proof (cases op)
  case (Act i pol r)
  show ?thesis
  proof (cases "i = k")
    case True
    with assms Act show ?thesis by (simp add: Let_def decide_and_act_dead)
  next
    case False
    with Act show ?thesis by (simp add: Let_def)
  qed
next
  case (ExecuteTrade off)
  with assms show ?thesis by (simp add: Let_def execute_trade_dead_unchanged)
next
  case (TradingPhase shuffle r stp)
  with assms show ?thesis by (simp add: Let_def process_trading_phase_dead_unchanged)
qed simp_all

lemma run_dead_unchanged:
  "\<not> alive (w_agents w ! k) \<Longrightarrow> w_agents (run cfg ops w) ! k = w_agents w ! k"
proof (induction ops arbitrary: w)
  case Nil
  show ?case by (simp add: run_def)
next
  case (Cons op ops)
  have step: "w_agents (apply_operation cfg op w) ! k = w_agents w ! k"
    using Cons.prems by (rule apply_operation_dead_unchanged)
  with Cons.prems have "\<not> alive (w_agents (apply_operation cfg op w) ! k)"
    by simp
  then have "w_agents (run cfg ops (apply_operation cfg op w)) ! k
               = w_agents (apply_operation cfg op w) ! k"
    by (rule Cons.IH)
  with step show ?case by (simp add: run_def)
qed

lemma apply_operation_nonneg:
  assumes inv: "\<forall>a \<in> set (w_agents w). nonneg_inventory a"
    and pending: "\<forall>off \<in> set (offers (w_market w)). nonneg_offer off"
    and wf: "well_formed op"
  shows "(\<forall>a \<in> set (w_agents (apply_operation cfg op w)). nonneg_inventory a)
     \<and> (\<forall>off \<in> set (offers (w_market (apply_operation cfg op w))). nonneg_offer off)"
proof (cases op)
  case (Act i pol r)
  show ?thesis
  proof (cases "i < length (w_agents w)")
    case False
    with Act inv pending show ?thesis by simp
  next
    case True
    then have "nonneg_inventory (w_agents w ! i)"
      using inv by simp
    then have new: "nonneg_inventory
        (res_agent (decide_and_act cfg pol r (w_agents w ! i) (w_env w)
                      (others_of i (w_agents w))))"
      by (rule decide_and_act_nonneg)
    have "set ((w_agents w)[i := v]) \<subseteq> insert v (set (w_agents w))" for v
      by (rule set_update_subset_insert)
    with new inv have "\<forall>a \<in> set ((w_agents w)
        [i := res_agent (decide_and_act cfg pol r (w_agents w ! i) (w_env w)
                      (others_of i (w_agents w)))]). nonneg_inventory a"
      by blast
    with Act True pending show ?thesis by (simp add: Let_def)
  qed
next
  case (AddOffer off)
  with inv pending wf show ?thesis by (simp add: add_offer_def)
next
  case (ExecuteTrade off)
  with inv pending wf show ?thesis by (simp add: Let_def execute_trade_nonneg)
next
  case (TradingPhase shuffle r stp)
  with wf have sh: "rearranges shuffle" by simp
  have agents: "\<forall>a \<in> set (ph_agents (process_trading_phase cfg shuffle r (w_agents w)
                                 (w_market w) stp)). nonneg_inventory a"
    using inv pending sh by (rule process_trading_phase_nonneg)
  have "\<forall>off \<in> set (offers (ph_market (process_trading_phase cfg shuffle r (w_agents w)
                                 (w_market w) stp))). nonneg_offer off"
    using pending by (cases "TRADE_RANGE cfg \<le> 0") simp_all
  with TradingPhase agents show ?thesis by (simp add: Let_def)
next
  case (Replenish env)
  with inv pending show ?thesis by simp
qed

lemma run_nonneg:
  assumes "\<forall>a \<in> set (w_agents w). nonneg_inventory a"
    and "\<forall>off \<in> set (offers (w_market w)). nonneg_offer off"
    and "\<forall>op \<in> set ops. well_formed op"
  shows "(\<forall>a \<in> set (w_agents (run cfg ops w)). nonneg_inventory a)
     \<and> (\<forall>off \<in> set (offers (w_market (run cfg ops w))). nonneg_offer off)"
  using assms
proof (induction ops arbitrary: w)
  case Nil
  then show ?case by (simp add: run_def)
next
  case (Cons op ops)
  have wf: "well_formed op" using Cons.prems(3) by simp
  have rest: "\<forall>op \<in> set ops. well_formed op" using Cons.prems(3) by simp
  note step = apply_operation_nonneg [OF Cons.prems(1,2) wf, of cfg]
  have "(\<forall>a \<in> set (w_agents (run cfg ops (apply_operation cfg op w))). nonneg_inventory a)
     \<and> (\<forall>off \<in> set (offers (w_market (run cfg ops (apply_operation cfg op w)))). nonneg_offer off)"
    using step rest by (intro Cons.IH) simp_all
  then show ?case by (simp add: run_def)
qed

lemma make_offer_dead: "\<not> alive a \<Longrightarrow> make_offer cfg stp a s = s"
  by (simp add: make_offer_def)

lemma execute_trade_exchanged:
  assumes "fst (execute_trade m off agents)"
    and "agents_dict_get agents (offerer off) = Some oi"
    and "agents_dict_get agents (target off) = Some ti"
  shows "snd (snd (execute_trade m off agents)) = exchanged off oi ti agents"
  by (simp add: execute_trade_result [OF assms] exchanged_def lose_and_gain_def
        adjust_inventory_def resources_update_both)

lemma exchanged_two_agents:
  assumes "oi \<noteq> ti"
  shows "exchanged off oi ti agents =
     agents[oi := (agents ! oi)\<lparr>inventory := \<lparr>
               red = red (inventory (agents ! oi)) - offer_red off + request_red off,
               green = green (inventory (agents ! oi)) - offer_green off + request_green off\<rparr>\<rparr>,
            ti := (agents ! ti)\<lparr>inventory := \<lparr>
               red = red (inventory (agents ! ti)) - request_red off + offer_red off,
               green = green (inventory (agents ! ti)) - request_green off + offer_green off\<rparr>\<rparr>]"
  using assms by (simp add: exchanged_def lose_and_gain_def)

lemma remove1_conflicts:
  assumes "\<forall>x \<in> set pre. \<not> P x"
  shows "fold remove1 (filter P xs) (pre @ xs) = pre @ filter (\<lambda>x. \<not> P x) xs"
  using assms
proof (induction xs arbitrary: pre)
  case Nil
  show ?case by simp
next
  case (Cons x xs)
  show ?case
  proof (cases "P x")
    case True
    with Cons.prems have "x \<notin> set pre" by blast
    then have "remove1 x (pre @ x # xs) = pre @ xs"
      by (simp add: remove1_append)
    with True Cons.IH [OF Cons.prems] show ?thesis by simp
  next
    case False
    with Cons.prems have "\<forall>y \<in> set (pre @ [x]). \<not> P y" by simp
    from Cons.IH [OF this] False show ?thesis by simp
  qed
qed

lemma fold_remove_offer_offers:
  "offers (fold (\<lambda>c m. remove_offer m c) cs m) = fold remove1 cs (offers m)"
  by (induction cs arbitrary: m) (simp_all add: remove_offer_offers)

lemma cancel_conflicts_offers:
  "offers (fold (\<lambda>c m. remove_offer m c) (filter P (offers m)) m)
     = filter (\<lambda>x. \<not> P x) (offers m)"
  using remove1_conflicts [of "[]" P "offers m"]
  by (simp add: fold_remove_offer_offers)

lemma process_acceptance_executed:
  assumes "fst (consider_trade_acceptance cfg (ph_rng s) (ph_agents s ! i) offs stp) = Some off"
    and "fst (execute_trade (ph_market s) off (ph_agents s))"
  shows "ph_agents (process_acceptance cfg stp (i, offs) s)
           = snd (snd (execute_trade (ph_market s) off (ph_agents s)))"
    and "completed_trades (ph_market (process_acceptance cfg stp (i, offs) s))
           = completed_trades (ph_market s) @ [off]"
    and "offers (ph_market (process_acceptance cfg stp (i, offs) s))
           = filter (\<lambda>x. \<not> conflicts_with off x) (remove1 off (offers (ph_market s)))"
    and "ph_events (process_acceptance cfg stp (i, offs) s)
           = ph_events s @ [AcceptedEvent off]
               @ map CancelledEvent
                   (filter (conflicts_with off) (remove1 off (offers (ph_market s))))"
proof -
  let ?m1 = "fst (snd (execute_trade (ph_market s) off (ph_agents s)))"
  let ?m2 = "remove_offer ?m1 off"
  have m2: "offers ?m2 = remove1 off (offers (ph_market s))"
    by (simp add: remove_offer_offers)
  have eq: "process_acceptance cfg stp (i, offs) s =
      \<lparr>ph_market = fold (\<lambda>conflict m. remove_offer m conflict)
                      (filter (conflicts_with off) (offers ?m2)) ?m2,
       ph_agents = snd (snd (execute_trade (ph_market s) off (ph_agents s))),
       ph_events = ph_events s @ [AcceptedEvent off]
                     @ map CancelledEvent (filter (conflicts_with off) (offers ?m2)),
       ph_rng = snd (consider_trade_acceptance cfg (ph_rng s) (ph_agents s ! i) offs stp)\<rparr>"
    using assms by (simp add: process_acceptance_def Let_def)
  show "ph_agents (process_acceptance cfg stp (i, offs) s)
           = snd (snd (execute_trade (ph_market s) off (ph_agents s)))"
    by (simp add: eq)
  show "completed_trades (ph_market (process_acceptance cfg stp (i, offs) s))
           = completed_trades (ph_market s) @ [off]"
    by (simp add: eq execute_trade_ledger assms(2))
  show "offers (ph_market (process_acceptance cfg stp (i, offs) s))
           = filter (\<lambda>x. \<not> conflicts_with off x) (remove1 off (offers (ph_market s)))"
    unfolding eq using cancel_conflicts_offers [of "conflicts_with off" ?m2]
    by (simp add: m2)
  show "ph_events (process_acceptance cfg stp (i, offs) s)
           = ph_events s @ [AcceptedEvent off]
               @ map CancelledEvent
                   (filter (conflicts_with off) (remove1 off (offers (ph_market s))))"
    by (simp add: eq m2)
qed

lemma in_concat_map4:
  "x \<in> set (concat (map f [a, b, c, e]))
     = (x \<in> set (f a) \<or> x \<in> set (f b) \<or> x \<in> set (f c) \<or> x \<in> set (f e))"
  by simp

lemma random_actions_move:
  assumes "is_direction d"
    and "new_pos env (fst (position a)) (snd (position a)) d = Some np"
  shows "(''move '' @ d \<in> set (random_actions env occupied a))
           = (np \<notin> set occupied \<and> np \<noteq> position a)"
proof -
  define M where "M = concat (map (\<lambda>direction.
                   (case new_pos env (fst (position a)) (snd (position a)) direction of
                      Some np \<Rightarrow> if np \<notin> set occupied \<and> np \<noteq> position a
                                 then [''move '' @ direction] else []
                    | None \<Rightarrow> [])) [''up'', ''down'', ''left'', ''right''])"
  define R where "R = (case get_cell_content env (fst (position a)) (snd (position a)) of
              Some c \<Rightarrow> if c \<noteq> [] \<and> in_inventory c then [''collect''] else []
            | None \<Rightarrow> [])
         @ (if red (inventory a) > 0 then [''eat red''] else [])
         @ (if green (inventory a) > 0 then [''eat green''] else [])
         @ [''do nothing'']"
  have ra: "random_actions env occupied a = M @ R"
    by (simp only: M_def R_def random_actions_def Let_def)
  have moves: "(''move '' @ d \<in> set (case new_pos env (fst (position a)) (snd (position a)) d' of
                   Some p \<Rightarrow> if p \<notin> set occupied \<and> p \<noteq> position a
                              then [''move '' @ d'] else []
                 | None \<Rightarrow> []))
      = (d = d' \<and> np \<notin> set occupied \<and> np \<noteq> position a)" for d'
    using assms(2)
    by (cases "new_pos env (fst (position a)) (snd (position a)) d'") auto
  have inM: "(''move '' @ d \<in> set M)
      = ((d = ''up'' \<or> d = ''down'' \<or> d = ''left'' \<or> d = ''right'')
          \<and> np \<notin> set occupied \<and> np \<noteq> position a)"
    unfolding M_def in_concat_map4 moves by blast
  have notR: "''move '' @ d \<notin> set R"
    unfolding R_def
    by (cases "get_cell_content env (fst (position a)) (snd (position a))") simp_all
  have "(''move '' @ d \<in> set (M @ R))
      = ((d = ''up'' \<or> d = ''down'' \<or> d = ''left'' \<or> d = ''right'')
          \<and> np \<notin> set occupied \<and> np \<noteq> position a)"
    unfolding set_append Un_iff inM using notR by blast
  with assms(1) show ?thesis
    unfolding ra is_direction_def by blast
qed

lemma random_resolve_move:
  assumes "is_direction d" and "new_pos env x y d = Some np"
  shows "random_resolve cfg r x y (''move '' @ d) a env =
     random_finish cfg r (''move '' @ d)
       (''moved '' @ d @ '' (energy: '' @ str_int (energy a) @ '')'')
       (a\<lparr>position := np\<rparr>) env"
  unfolding random_resolve_def
  by (simp only: move_action_parts [OF assms(1)] assms(2) if_True list.case option.case)

lemma random_action_chosen:
  assumes "fst (choice r (random_actions env occupied a)) = action"
  shows "random_action cfg r env occupied a =
     random_resolve cfg (snd (choice r (random_actions env occupied a)))
       (fst (position a)) (snd (position a)) action
       (a\<lparr>actions_taken := actions_taken a @ [action]\<rparr>) env"
  using assms by (simp add: random_action_def Let_def)

lemma energy_gained_same_rates:
  "consumption_rates b = consumption_rates a \<Longrightarrow> energy_gained b = energy_gained a"
  by (rule ext) (simp add: energy_gained_def)

lemma energy_gained_not_eaten [simp]:
  "energy_gained a (Inl e) = 0"
  "energy_gained a (Inr (''moved '' @ s)) = 0"
  "energy_gained a (Inr ''move blocked: other agent or wall'') = 0"
  "energy_gained a (Inr (''collected '' @ s)) = 0"
  "energy_gained a (Inr ''nothing to collect'') = 0"
  "energy_gained a (Inr ''did nothing'') = 0"
  "energy_gained a (Inr ''failed to act'') = 0"
  "energy_gained a (Inr ''ran out of energy'') = 0"
  "energy_gained a (Inr ''inactive'') = 0"
  by (simp_all add: energy_gained_def)

lemma energy_gained_eaten [simp]:
  "energy_gained a (Inr (''ate red (+'' @ str_int (red (consumption_rates a)) @ '')''))
     = red (consumption_rates a)"
  "energy_gained a (Inr (''ate green (+'' @ str_int (green (consumption_rates a)) @ '')''))
     = green (consumption_rates a)"
  by (simp_all add: energy_gained_def)

lemma resolve_action_energy:
  "energy (att_agent (resolve_action cfg occupied obs x y retry action a env))
     = energy a + energy_gained a (att_result (resolve_action cfg occupied obs x y retry action a env))"
  unfolding resolve_action_def
  by (cases "split action"; cases "tl (split action)"; cases "get_cell_content env x y";
      cases "new_pos env x y (hd (tl (split action)))")
     (simp_all del: append.simps)

lemma random_resolve_energy:
  "energy (res_agent (random_resolve cfg r x y action a env))
     = energy a + energy_gained a (res_outcome (random_resolve cfg r x y action a env))"
  unfolding random_resolve_def
  by (cases "split action"; cases "tl (split action)"; cases "get_cell_content env x y";
      cases "new_pos env x y (hd (tl (split action)))")
     (simp_all del: append.simps)

lemma decide_and_act_energy:
  assumes "alive a"
  shows "energy (res_agent (decide_and_act cfg pol r a env others))
     = energy a - ENERGY_LOSS_PER_TURN cfg
         + energy_gained a (res_outcome (decide_and_act cfg pol r a env others))"
proof (cases "0 < energy a - ENERGY_LOSS_PER_TURN cfg")
  case False
  with assms show ?thesis by (simp add: decide_and_act_starved)
next
  case pos: True
  let ?a2 = "a\<lparr>step_count := step_count a + 1, energy := energy a - ENERGY_LOSS_PER_TURN cfg\<rparr>"
  have rates: "energy_gained (?a2\<lparr>actions_taken := ts\<rparr>) = energy_gained a" for ts
    by (rule energy_gained_same_rates) simp
  show ?thesis
  proof (cases "RAND_MODE cfg = 1")
    case True
    show ?thesis
      unfolding decide_and_act_random [OF assms pos True] random_action_def Let_def
        random_resolve_energy rates
      by simp
  next
    case False
    show ?thesis
      unfolding decide_and_act_attempt [OF assms pos False] Let_def
      by (simp add: resolve_action_energy rates)
  qed
qed

lemma decide_and_act_survivor:
  assumes "alive a" "0 < energy a - ENERGY_LOSS_PER_TURN cfg"
  shows "decide_and_act cfg pol r a env others =
     (if RAND_MODE cfg = 1 then
        random_action cfg r env (map position (filter alive others))
          (a\<lparr>step_count := step_count a + 1, energy := energy a - ENERGY_LOSS_PER_TURN cfg\<rparr>)
      else
        retry_loop 2 cfg pol (map position (filter alive others))
          (get_current_observation
             (a\<lparr>step_count := step_count a + 1,
                energy := energy a - ENERGY_LOSS_PER_TURN cfg\<rparr>) env others)
          (fst (position a)) (snd (position a))
          (get_cell_content env (fst (position a)) (snd (position a))) r None []
          (a\<lparr>step_count := step_count a + 1, energy := energy a - ENERGY_LOSS_PER_TURN cfg\<rparr>)
          env)"
  using assms by (simp add: decide_and_act_def Let_def)

section \<open>Properties\<close>

text \<open>
  C10: \<open>execute_trade\<close> returns \<open>False\<close> and leaves the inventories, the pending
  offers and the ledger as they are when the offerer or the target of the offer is not
  in the roster or not alive; so the ledger grows, by the offer, only when both are in
  the roster and alive at that moment.
\<close>

theorem execute_trade_needs_living_parties:
  "(\<not> party_alive agents (offerer off) \<or> \<not> party_alive agents (target off)
      \<longrightarrow> execute_trade m off agents = (False, m, agents))
   \<and> (completed_trades (fst (snd (execute_trade m off agents))) \<noteq> completed_trades m
      \<longrightarrow> party_alive agents (offerer off) \<and> party_alive agents (target off)
          \<and> completed_trades (fst (snd (execute_trade m off agents))) = completed_trades m @ [off])"
proof (intro conjI impI)
  assume "\<not> party_alive agents (offerer off) \<or> \<not> party_alive agents (target off)"
  then have "\<not> fst (execute_trade m off agents)"
    using execute_trade_parties by blast
  then show "execute_trade m off agents = (False, m, agents)"
    by (rule execute_trade_refused)
next
  assume changed: "completed_trades (fst (snd (execute_trade m off agents))) \<noteq> completed_trades m"
  then have ok: "fst (execute_trade m off agents)"
    by (auto simp: execute_trade_ledger split: if_splits)
  then show "party_alive agents (offerer off)" "party_alive agents (target off)"
    using execute_trade_parties by blast+
  from ok show "completed_trades (fst (snd (execute_trade m off agents))) = completed_trades m @ [off]"
    by (simp add: execute_trade_ledger)
qed

theorem execute_trade_needs_living_parties_witness:
  "\<not> party_alive example_pair ''Agent9''
   \<and> execute_trade new_market (example_offer\<lparr>target := ''Agent9''\<rparr>) example_pair
       = (False, new_market, example_pair)"
  using execute_trade_needs_living_parties
          [of example_pair "example_offer\<lparr>target := ''Agent9''\<rparr>" new_market]
  by (simp add: party_alive_def agents_dict_get_def example_pair_def new_agent_def
        example_offer_def)

text \<open>
  C6: an executed trade leaves, for each resource kind, the sum over the inventories
  of the offerer and the target as it was, and every other agent as it was. The
  example of the specification: the offerer holds 0 red and 3 green, the target 2 red
  and 0 green, the offer is 1 green for 1 red; afterwards the offerer holds 1 red and
  2 green and the target 1 red and 1 green.
\<close>

theorem trade_conservation:
  "(fst (execute_trade m off agents)
      \<longrightarrow> agents_dict_get agents (offerer off) = Some oi
      \<longrightarrow> agents_dict_get agents (target off) = Some ti
      \<longrightarrow> red (inventory (snd (snd (execute_trade m off agents)) ! oi))
            + red (inventory (snd (snd (execute_trade m off agents)) ! ti))
          = red (inventory (agents ! oi)) + red (inventory (agents ! ti))
        \<and> green (inventory (snd (snd (execute_trade m off agents)) ! oi))
            + green (inventory (snd (snd (execute_trade m off agents)) ! ti))
          = green (inventory (agents ! oi)) + green (inventory (agents ! ti))
        \<and> (\<forall>k. k \<noteq> oi \<and> k \<noteq> ti
              \<longrightarrow> snd (snd (execute_trade m off agents)) ! k = agents ! k))
   \<and> fst (execute_trade new_market example_offer example_pair)
   \<and> map inventory (snd (snd (execute_trade new_market example_offer example_pair)))
       = [\<lparr>red = 1, green = 2\<rparr>, \<lparr>red = 1, green = 1\<rparr>]"
proof (intro conjI impI)
  assume ok: "fst (execute_trade m off agents)"
    and oi: "agents_dict_get agents (offerer off) = Some oi"
    and ti: "agents_dict_get agents (target off) = Some ti"
  note nth = execute_trade_nth [OF ok oi ti]
  show "red (inventory (snd (snd (execute_trade m off agents)) ! oi))
            + red (inventory (snd (snd (execute_trade m off agents)) ! ti))
          = red (inventory (agents ! oi)) + red (inventory (agents ! ti))"
    by (simp add: nth)
  show "green (inventory (snd (snd (execute_trade m off agents)) ! oi))
            + green (inventory (snd (snd (execute_trade m off agents)) ! ti))
          = green (inventory (agents ! oi)) + green (inventory (agents ! ti))"
    by (simp add: nth)
  show "\<forall>k. k \<noteq> oi \<and> k \<noteq> ti
              \<longrightarrow> snd (snd (execute_trade m off agents)) ! k = agents ! k"
    by (simp add: nth)
next
  show "fst (execute_trade new_market example_offer example_pair)"
    by (simp add: execute_trade_def agents_dict_get_def example_pair_def new_agent_def
          example_offer_def resources_available_def)
  show "map inventory (snd (snd (execute_trade new_market example_offer example_pair)))
       = [\<lparr>red = 1, green = 2\<rparr>, \<lparr>red = 1, green = 1\<rparr>]"
    by (simp add: execute_trade_def agents_dict_get_def example_pair_def new_agent_def
          example_offer_def resources_available_def adjust_inventory_def)
qed

theorem trade_conservation_witness:
  "fst (execute_trade new_market example_offer example_pair)
   \<and> agents_dict_get example_pair (offerer example_offer) = Some 0
   \<and> agents_dict_get example_pair (target example_offer) = Some 1
   \<and> red (inventory (snd (snd (execute_trade new_market example_offer example_pair)) ! 0))
       + red (inventory (snd (snd (execute_trade new_market example_offer example_pair)) ! 1))
     = 2
   \<and> green (inventory (snd (snd (execute_trade new_market example_offer example_pair)) ! 0))
       + green (inventory (snd (snd (execute_trade new_market example_offer example_pair)) ! 1))
     = 3"
proof -
  have oi: "agents_dict_get example_pair (offerer example_offer) = Some 0"
    by (simp add: agents_dict_get_def example_pair_def new_agent_def example_offer_def)
  have ti: "agents_dict_get example_pair (target example_offer) = Some 1"
    by (simp add: agents_dict_get_def example_pair_def new_agent_def example_offer_def)
  have before: "red (inventory (example_pair ! 0)) + red (inventory (example_pair ! 1)) = 2"
    "green (inventory (example_pair ! 0)) + green (inventory (example_pair ! 1)) = 3"
    by (simp_all add: example_pair_def new_agent_def)
  show ?thesis
    using trade_conservation [of new_market example_offer example_pair 0 1] oi ti before
    by simp
qed

text \<open>
  C5: when the re-validation of an accepted offer fails, \<open>execute_trade\<close> returns
  \<open>False\<close> and changes no inventory and not the ledger; the acceptance step then logs
  the offer as failed and removes it from the pending offers, with the roster and the
  ledger as they were, and does not execute it again. When the re-validation succeeds
  (both parties in the roster and alive, both inventories sufficient), \<open>execute_trade\<close>
  returns \<open>True\<close> with the roster after the exchange (the offerer has lost the offered
  and gained the requested amounts, the target has lost the requested and gained the
  offered amounts) and the offer appended to the ledger; the acceptance step then
  leaves that roster and that ledger, removes the offer and every pending offer in
  conflict with it, and logs the acceptance and the cancellations.
\<close>

theorem stale_trade_is_discarded:
  "(agents_dict_get agents (offerer off) = Some oi
      \<longrightarrow> agents_dict_get agents (target off) = Some ti
      \<longrightarrow> \<not> resources_available (agents ! oi) (agents ! ti) off
      \<longrightarrow> execute_trade m off agents = (False, m, agents))
   \<and> (fst (consider_trade_acceptance cfg (ph_rng s) (ph_agents s ! i) offs stp) = Some off
      \<longrightarrow> \<not> fst (execute_trade (ph_market s) off (ph_agents s))
      \<longrightarrow> ph_agents (process_acceptance cfg stp (i, offs) s) = ph_agents s
          \<and> completed_trades (ph_market (process_acceptance cfg stp (i, offs) s))
              = completed_trades (ph_market s)
          \<and> offers (ph_market (process_acceptance cfg stp (i, offs) s))
              = remove1 off (offers (ph_market s))
          \<and> ph_events (process_acceptance cfg stp (i, offs) s)
              = ph_events s @ [FailedEvent off])
   \<and> (agents_dict_get agents (offerer off) = Some oi
      \<longrightarrow> agents_dict_get agents (target off) = Some ti
      \<longrightarrow> alive (agents ! oi) \<longrightarrow> alive (agents ! ti)
      \<longrightarrow> resources_available (agents ! oi) (agents ! ti) off
      \<longrightarrow> execute_trade m off agents =
            (True,
             m\<lparr>completed_trades := completed_trades m @ [off],
               trade_log := trade_log m @ [ExecutedLine off]\<rparr>,
             exchanged off oi ti agents))
   \<and> (oi \<noteq> ti
      \<longrightarrow> exchanged off oi ti agents =
            agents[oi := (agents ! oi)\<lparr>inventory := \<lparr>
                     red = red (inventory (agents ! oi)) - offer_red off + request_red off,
                     green = green (inventory (agents ! oi)) - offer_green off
                               + request_green off\<rparr>\<rparr>,
                   ti := (agents ! ti)\<lparr>inventory := \<lparr>
                     red = red (inventory (agents ! ti)) - request_red off + offer_red off,
                     green = green (inventory (agents ! ti)) - request_green off
                               + offer_green off\<rparr>\<rparr>])
   \<and> (fst (consider_trade_acceptance cfg (ph_rng s) (ph_agents s ! i) offs stp) = Some off
      \<longrightarrow> agents_dict_get (ph_agents s) (offerer off) = Some oi
      \<longrightarrow> agents_dict_get (ph_agents s) (target off) = Some ti
      \<longrightarrow> alive (ph_agents s ! oi) \<longrightarrow> alive (ph_agents s ! ti)
      \<longrightarrow> resources_available (ph_agents s ! oi) (ph_agents s ! ti) off
      \<longrightarrow> ph_agents (process_acceptance cfg stp (i, offs) s)
            = exchanged off oi ti (ph_agents s)
          \<and> completed_trades (ph_market (process_acceptance cfg stp (i, offs) s))
              = completed_trades (ph_market s) @ [off]
          \<and> offers (ph_market (process_acceptance cfg stp (i, offs) s))
              = filter (\<lambda>x. \<not> conflicts_with off x) (remove1 off (offers (ph_market s)))
          \<and> ph_events (process_acceptance cfg stp (i, offs) s)
              = ph_events s @ [AcceptedEvent off]
                  @ map CancelledEvent
                      (filter (conflicts_with off) (remove1 off (offers (ph_market s)))))"
proof (intro conjI impI)
  assume "agents_dict_get agents (offerer off) = Some oi"
    "agents_dict_get agents (target off) = Some ti"
    "\<not> resources_available (agents ! oi) (agents ! ti) off"
  then have "\<not> fst (execute_trade m off agents)"
    by (simp add: execute_trade_accepted_iff)
  then show "execute_trade m off agents = (False, m, agents)"
    by (rule execute_trade_refused)
next
  assume acc: "fst (consider_trade_acceptance cfg (ph_rng s) (ph_agents s ! i) offs stp) = Some off"
    and no: "\<not> fst (execute_trade (ph_market s) off (ph_agents s))"
  note eq = process_acceptance_failed [OF acc no]
  show "ph_agents (process_acceptance cfg stp (i, offs) s) = ph_agents s"
    by (simp add: eq)
  show "completed_trades (ph_market (process_acceptance cfg stp (i, offs) s))
          = completed_trades (ph_market s)"
    by (simp add: eq)
  show "offers (ph_market (process_acceptance cfg stp (i, offs) s))
          = remove1 off (offers (ph_market s))"
    by (simp add: eq remove_offer_offers)
  show "ph_events (process_acceptance cfg stp (i, offs) s) = ph_events s @ [FailedEvent off]"
    by (simp add: eq)
next
  assume oi: "agents_dict_get agents (offerer off) = Some oi"
    and ti: "agents_dict_get agents (target off) = Some ti"
    and rest: "alive (agents ! oi)" "alive (agents ! ti)"
      "resources_available (agents ! oi) (agents ! ti) off"
  then have ok: "fst (execute_trade m off agents)"
    by (auto simp: execute_trade_accepted_iff)
  have "execute_trade m off agents =
      (fst (execute_trade m off agents), fst (snd (execute_trade m off agents)),
       snd (snd (execute_trade m off agents)))"
    by simp
  then show "execute_trade m off agents =
            (True,
             m\<lparr>completed_trades := completed_trades m @ [off],
               trade_log := trade_log m @ [ExecutedLine off]\<rparr>,
             exchanged off oi ti agents)"
    using ok by (simp add: execute_trade_market [OF ok] execute_trade_exchanged [OF ok oi ti])
next
  assume "oi \<noteq> ti"
  then show "exchanged off oi ti agents =
            agents[oi := (agents ! oi)\<lparr>inventory := \<lparr>
                     red = red (inventory (agents ! oi)) - offer_red off + request_red off,
                     green = green (inventory (agents ! oi)) - offer_green off
                               + request_green off\<rparr>\<rparr>,
                   ti := (agents ! ti)\<lparr>inventory := \<lparr>
                     red = red (inventory (agents ! ti)) - request_red off + offer_red off,
                     green = green (inventory (agents ! ti)) - request_green off
                               + offer_green off\<rparr>\<rparr>]"
    by (rule exchanged_two_agents)
next
  assume acc: "fst (consider_trade_acceptance cfg (ph_rng s) (ph_agents s ! i) offs stp) = Some off"
    and oi: "agents_dict_get (ph_agents s) (offerer off) = Some oi"
    and ti: "agents_dict_get (ph_agents s) (target off) = Some ti"
    and rest: "alive (ph_agents s ! oi)" "alive (ph_agents s ! ti)"
      "resources_available (ph_agents s ! oi) (ph_agents s ! ti) off"
  then have ok: "fst (execute_trade (ph_market s) off (ph_agents s))"
    by (auto simp: execute_trade_accepted_iff)
  note fin = process_acceptance_executed [OF acc ok]
  show "ph_agents (process_acceptance cfg stp (i, offs) s) = exchanged off oi ti (ph_agents s)"
    by (simp add: fin(1) execute_trade_exchanged [OF ok oi ti])
  show "completed_trades (ph_market (process_acceptance cfg stp (i, offs) s))
              = completed_trades (ph_market s) @ [off]"
    by (rule fin(2))
  show "offers (ph_market (process_acceptance cfg stp (i, offs) s))
              = filter (\<lambda>x. \<not> conflicts_with off x) (remove1 off (offers (ph_market s)))"
    by (rule fin(3))
  show "ph_events (process_acceptance cfg stp (i, offs) s)
              = ph_events s @ [AcceptedEvent off]
                  @ map CancelledEvent
                      (filter (conflicts_with off) (remove1 off (offers (ph_market s))))"
    by (rule fin(4))
qed

theorem stale_trade_is_discarded_witness:
  "execute_trade new_market stale_offer example_pair = (False, new_market, example_pair)
   \<and> fst (consider_trade_acceptance example_config (ph_rng example_phase)
            (ph_agents example_phase ! 1) [stale_offer] 1) = Some stale_offer
   \<and> ph_agents (process_acceptance example_config 1 (1, [stale_offer]) example_phase)
       = example_pair
   \<and> completed_trades
        (ph_market (process_acceptance example_config 1 (1, [stale_offer]) example_phase)) = []
   \<and> offers (ph_market (process_acceptance example_config 1 (1, [stale_offer]) example_phase))
       = []
   \<and> fst (execute_trade new_market example_offer example_pair)
   \<and> map inventory (snd (snd (execute_trade new_market example_offer example_pair)))
       = [\<lparr>red = 1, green = 2\<rparr>, \<lparr>red = 1, green = 1\<rparr>]
   \<and> fst (consider_trade_acceptance example_config (ph_rng accepting_phase)
            (ph_agents accepting_phase ! 1) [example_offer] 1) = Some example_offer
   \<and> map inventory
        (ph_agents (process_acceptance example_config 1 (1, [example_offer]) accepting_phase))
       = [\<lparr>red = 1, green = 2\<rparr>, \<lparr>red = 1, green = 1\<rparr>]
   \<and> completed_trades
        (ph_market (process_acceptance example_config 1 (1, [example_offer]) accepting_phase))
       = [example_offer]
   \<and> offers
        (ph_market (process_acceptance example_config 1 (1, [example_offer]) accepting_phase))
       = []"
proof -
  have oi: "agents_dict_get example_pair (offerer stale_offer) = Some 0"
    "agents_dict_get example_pair (offerer example_offer) = Some 0"
    and ti: "agents_dict_get example_pair (target stale_offer) = Some 1"
    "agents_dict_get example_pair (target example_offer) = Some 1"
    by (simp_all add: agents_dict_get_def example_pair_def new_agent_def stale_offer_def
          example_offer_def)
  have short: "\<not> resources_available (example_pair ! 0) (example_pair ! 1) stale_offer"
    by (simp add: resources_available_def example_pair_def new_agent_def stale_offer_def
          example_offer_def)
  have acc: "fst (consider_trade_acceptance example_config (ph_rng example_phase)
            (ph_agents example_phase ! 1) [stale_offer] 1) = Some stale_offer"
    by (simp add: consider_trade_acceptance_def example_config_def example_phase_def
          example_pair_def new_agent_def stale_offer_def example_offer_def)
  have acc2: "fst (consider_trade_acceptance example_config (ph_rng accepting_phase)
            (ph_agents accepting_phase ! 1) [example_offer] 1) = Some example_offer"
    by (simp add: consider_trade_acceptance_def example_config_def accepting_phase_def
          example_pair_def new_agent_def example_offer_def)
  have enough: "resources_available (example_pair ! 0) (example_pair ! 1) example_offer"
    by (simp add: resources_available_def example_pair_def new_agent_def example_offer_def)
  have live: "alive (example_pair ! 0)" "alive (example_pair ! 1)"
    by (simp_all add: example_pair_def new_agent_def)
  have state: "ph_agents example_phase = example_pair"
    "completed_trades (ph_market example_phase) = []"
    "offers (ph_market example_phase) = [stale_offer]"
    "ph_agents accepting_phase = example_pair"
    "completed_trades (ph_market accepting_phase) = []"
    "offers (ph_market accepting_phase) = [example_offer]"
    by (simp_all add: example_phase_def accepting_phase_def new_market_def)
  have refused: "\<not> fst (execute_trade (ph_market example_phase) stale_offer (ph_agents example_phase))"
    using oi(1) ti(1) short by (simp add: execute_trade_accepted_iff state)
  have after: "map inventory (exchanged example_offer 0 1 example_pair)
      = [\<lparr>red = 1, green = 2\<rparr>, \<lparr>red = 1, green = 1\<rparr>]"
    by (simp add: exchanged_def lose_and_gain_def example_pair_def new_agent_def
          example_offer_def)
  note stale = stale_trade_is_discarded
         [of example_pair stale_offer 0 1 new_market example_config example_phase 1
             "[stale_offer]" 1]
  note fresh = stale_trade_is_discarded
         [of example_pair example_offer 0 1 new_market example_config accepting_phase 1
             "[example_offer]" 1]
  have c1: "execute_trade new_market stale_offer example_pair = (False, new_market, example_pair)"
    using stale oi(1) ti(1) short by blast
  have c2: "ph_agents (process_acceptance example_config 1 (1, [stale_offer]) example_phase)
       = ph_agents example_phase"
    and c3: "completed_trades
        (ph_market (process_acceptance example_config 1 (1, [stale_offer]) example_phase))
       = completed_trades (ph_market example_phase)"
    and c4: "offers (ph_market (process_acceptance example_config 1 (1, [stale_offer]) example_phase))
       = remove1 stale_offer (offers (ph_market example_phase))"
    using stale acc refused by blast+
  have c5: "execute_trade new_market example_offer example_pair =
      (True,
       new_market\<lparr>completed_trades := completed_trades new_market @ [example_offer],
                  trade_log := trade_log new_market @ [ExecutedLine example_offer]\<rparr>,
       exchanged example_offer 0 1 example_pair)"
    using fresh oi(2) ti(2) live enough by blast
  have pre: "agents_dict_get (ph_agents accepting_phase) (offerer example_offer) = Some 0"
    "agents_dict_get (ph_agents accepting_phase) (target example_offer) = Some 1"
    "alive (ph_agents accepting_phase ! 0)" "alive (ph_agents accepting_phase ! 1)"
    "resources_available (ph_agents accepting_phase ! 0) (ph_agents accepting_phase ! 1)
       example_offer"
    using oi(2) ti(2) live enough by (simp_all add: state)
  have c6: "ph_agents (process_acceptance example_config 1 (1, [example_offer]) accepting_phase)
       = exchanged example_offer 0 1 (ph_agents accepting_phase)"
    and c7: "completed_trades
        (ph_market (process_acceptance example_config 1 (1, [example_offer]) accepting_phase))
       = completed_trades (ph_market accepting_phase) @ [example_offer]"
    and c8: "offers
        (ph_market (process_acceptance example_config 1 (1, [example_offer]) accepting_phase))
       = filter (\<lambda>x. \<not> conflicts_with example_offer x)
           (remove1 example_offer (offers (ph_market accepting_phase)))"
    using fresh acc2 pre by blast+
  show ?thesis
    using acc acc2 c1 c2 c3 c4 c5 c6 c7 c8 after
    by (simp add: state)
qed

text \<open>
  C4, as amended: with the random mode off, a living agent with a living neighbour in
  trade range makes exactly one offer when its rates are strictly unequal and it holds
  at least one unit of the resource it prefers less: 1 unit of that resource for 1 unit
  of the other, to one of the neighbours in range. An agent that holds none of the
  resource it prefers less makes no offer, and an agent with equal rates makes no
  offer.
\<close>

theorem offer_phase_one_for_one:
  assumes "alive a" and "RAND_MODE cfg \<noteq> 1"
    and "get_agents_in_trade_range a (ph_agents s) (TRADE_RANGE cfg) \<noteq> []"
  shows "(red (consumption_rates a) > green (consumption_rates a) \<and> green (inventory a) > 0
      \<longrightarrow> (\<exists>t \<in> set (get_agents_in_trade_range a (ph_agents s) (TRADE_RANGE cfg)).
            offers (ph_market (make_offer cfg stp a s)) =
              offers (ph_market s) @
                [\<lparr>offerer = name a, target = name t, offer_red = 0, offer_green = 1,
                  request_red = 1, request_green = 0, step = stp\<rparr>]))
   \<and> (green (consumption_rates a) > red (consumption_rates a) \<and> red (inventory a) > 0
      \<longrightarrow> (\<exists>t \<in> set (get_agents_in_trade_range a (ph_agents s) (TRADE_RANGE cfg)).
            offers (ph_market (make_offer cfg stp a s)) =
              offers (ph_market s) @
                [\<lparr>offerer = name a, target = name t, offer_red = 1, offer_green = 0,
                  request_red = 0, request_green = 1, step = stp\<rparr>]))
   \<and> (red (consumption_rates a) > green (consumption_rates a) \<and> green (inventory a) \<le> 0
      \<longrightarrow> offers (ph_market (make_offer cfg stp a s)) = offers (ph_market s))
   \<and> (green (consumption_rates a) > red (consumption_rates a) \<and> red (inventory a) \<le> 0
      \<longrightarrow> offers (ph_market (make_offer cfg stp a s)) = offers (ph_market s))
   \<and> (red (consumption_rates a) = green (consumption_rates a)
      \<longrightarrow> offers (ph_market (make_offer cfg stp a s)) = offers (ph_market s))"
proof -
  let ?near = "get_agents_in_trade_range a (ph_agents s) (TRADE_RANGE cfg)"
  have pos: "0 < TRADE_RANGE cfg"
    using assms(3) by (rule in_trade_range_positive)
  have t: "fst (choice (ph_rng s) ?near) \<in> set ?near"
    using assms(3) by (rule choice_in_set)
  note eq = make_offer_offers [of cfg stp a s]
    consider_trade_offer_normal [OF assms(2) pos assms(3), of "ph_rng s" a stp]
  show ?thesis
  proof (intro conjI impI)
    assume "red (consumption_rates a) > green (consumption_rates a) \<and> green (inventory a) > 0"
    then have "offers (ph_market (make_offer cfg stp a s)) =
              offers (ph_market s) @
                [\<lparr>offerer = name a, target = name (fst (choice (ph_rng s) ?near)),
                  offer_red = 0, offer_green = 1,
                  request_red = 1, request_green = 0, step = stp\<rparr>]"
      using assms(1,3) by (simp add: eq)
    with t show "\<exists>t \<in> set ?near.
            offers (ph_market (make_offer cfg stp a s)) =
              offers (ph_market s) @
                [\<lparr>offerer = name a, target = name t, offer_red = 0, offer_green = 1,
                  request_red = 1, request_green = 0, step = stp\<rparr>]"
      by blast
  next
    assume "green (consumption_rates a) > red (consumption_rates a) \<and> red (inventory a) > 0"
    then have "offers (ph_market (make_offer cfg stp a s)) =
              offers (ph_market s) @
                [\<lparr>offerer = name a, target = name (fst (choice (ph_rng s) ?near)),
                  offer_red = 1, offer_green = 0,
                  request_red = 0, request_green = 1, step = stp\<rparr>]"
      using assms(1,3) by (simp add: eq)
    with t show "\<exists>t \<in> set ?near.
            offers (ph_market (make_offer cfg stp a s)) =
              offers (ph_market s) @
                [\<lparr>offerer = name a, target = name t, offer_red = 1, offer_green = 0,
                  request_red = 0, request_green = 1, step = stp\<rparr>]"
      by blast
  next
    assume "red (consumption_rates a) > green (consumption_rates a) \<and> green (inventory a) \<le> 0"
    then show "offers (ph_market (make_offer cfg stp a s)) = offers (ph_market s)"
      using assms(1,3) by (simp add: eq)
  next
    assume "green (consumption_rates a) > red (consumption_rates a) \<and> red (inventory a) \<le> 0"
    then show "offers (ph_market (make_offer cfg stp a s)) = offers (ph_market s)"
      using assms(1,3) by (simp add: eq)
  next
    assume "red (consumption_rates a) = green (consumption_rates a)"
    then show "offers (ph_market (make_offer cfg stp a s)) = offers (ph_market s)"
      using assms(1,3) by (simp add: eq)
  qed
qed

theorem offer_phase_one_for_one_witness:
  "alive (example_pair ! 0) \<and> RAND_MODE example_config \<noteq> 1
   \<and> map name (get_agents_in_trade_range (example_pair ! 0) example_pair
                  (TRADE_RANGE example_config)) = [''Agent2'']
   \<and> offers (ph_market (make_offer example_config 1 (example_pair ! 0)
                           (phase_start example_pair))) = [example_offer]"
proof -
  have near: "get_agents_in_trade_range (example_pair ! 0) (ph_agents (phase_start example_pair))
                (TRADE_RANGE example_config) = [example_pair ! 1]"
    by (simp add: get_agents_in_trade_range_def example_pair_def new_agent_def
          example_config_def phase_start_def calculate_manhattan_distance_def)
  have facts: "alive (example_pair ! 0)" "RAND_MODE example_config \<noteq> 1"
    "red (consumption_rates (example_pair ! 0)) > green (consumption_rates (example_pair ! 0))"
    "green (inventory (example_pair ! 0)) > 0"
    "name (example_pair ! 0) = ''Agent1''" "name (example_pair ! 1) = ''Agent2''"
    "offers (ph_market (phase_start example_pair)) = []"
    "ph_agents (phase_start example_pair) = example_pair"
    by (simp_all add: example_pair_def new_agent_def example_config_def phase_start_def
          new_market_def)
  from offer_phase_one_for_one
         [of "example_pair ! 0" example_config "phase_start example_pair" 1]
  show ?thesis
    using near facts by (simp add: example_offer_def)
qed

theorem offer_without_inventory_counterexample:
  "alive (empty_handed_pair ! 0)
   \<and> green (consumption_rates (empty_handed_pair ! 0))
       < red (consumption_rates (empty_handed_pair ! 0))
   \<and> map name (get_agents_in_trade_range (empty_handed_pair ! 0) empty_handed_pair
                  (TRADE_RANGE example_config)) = [''Agent2'']
   \<and> green (inventory (empty_handed_pair ! 0)) = 0
   \<and> fst (consider_trade_offer example_config (\<lambda>n. 0) (empty_handed_pair ! 0)
            (get_agents_in_trade_range (empty_handed_pair ! 0) empty_handed_pair
               (TRADE_RANGE example_config)) 1) = None
   \<and> offers (ph_market (make_offer example_config 1 (empty_handed_pair ! 0)
                           (phase_start empty_handed_pair))) = []
   \<and> alive (example_roster ! 2)
   \<and> red (consumption_rates (example_roster ! 2)) = green (consumption_rates (example_roster ! 2))
   \<and> offers (ph_market (make_offer random_config 1 (example_roster ! 2)
                           (phase_start example_roster)))
       = [\<lparr>offerer = ''Agent3'', target = ''Agent2'', offer_red = 1, offer_green = 0,
           request_red = 0, request_green = 2, step = 1\<rparr>]"
proof -
  have normal: "alive (empty_handed_pair ! 0)
   \<and> green (consumption_rates (empty_handed_pair ! 0))
       < red (consumption_rates (empty_handed_pair ! 0))
   \<and> map name (get_agents_in_trade_range (empty_handed_pair ! 0) empty_handed_pair
                  (TRADE_RANGE example_config)) = [''Agent2'']
   \<and> green (inventory (empty_handed_pair ! 0)) = 0
   \<and> fst (consider_trade_offer example_config (\<lambda>n. 0) (empty_handed_pair ! 0)
            (get_agents_in_trade_range (empty_handed_pair ! 0) empty_handed_pair
               (TRADE_RANGE example_config)) 1) = None
   \<and> offers (ph_market (make_offer example_config 1 (empty_handed_pair ! 0)
                           (phase_start empty_handed_pair))) = []"
    by (simp add: make_offer_def consider_trade_offer_def get_agents_in_trade_range_def
          empty_handed_pair_def new_agent_def example_config_def phase_start_def
          calculate_manhattan_distance_def new_market_def)
  have balanced: "alive (example_roster ! 2)"
    "red (consumption_rates (example_roster ! 2)) = green (consumption_rates (example_roster ! 2))"
    by (simp_all add: example_roster_def new_agent_def)
  have random: "offers (ph_market (make_offer random_config 1 (example_roster ! 2)
                           (phase_start example_roster)))
       = [\<lparr>offerer = ''Agent3'', target = ''Agent2'', offer_red = 1, offer_green = 0,
           request_red = 0, request_green = 2, step = 1\<rparr>]"
    by code_simp
  from normal balanced random show ?thesis
    by blast
qed

text \<open>
  C3, as amended: with the random mode off, when the decision backend returns nothing
  or the empty string to a living agent that survives the energy loss, the action is
  \<open>"do nothing"\<close>: the step ends with the outcome \<open>"did nothing"\<close> after one
  request, no retry hint is set, the environment is unchanged, and of the agent only
  the step counter, the energy (less the loss per turn), the action history and the
  memory change.
\<close>

theorem no_answer_is_do_nothing:
  assumes "alive a" and "0 < energy a - ENERGY_LOSS_PER_TURN cfg" and "RAND_MODE cfg \<noteq> 1"
    and "resp = None \<or> resp = Some []"
  shows "res_outcome (decide_and_act cfg (\<lambda>req. resp) r a env others) = Inr ''did nothing''
   \<and> res_env (decide_and_act cfg (\<lambda>req. resp) r a env others) = env
   \<and> res_agent (decide_and_act cfg (\<lambda>req. resp) r a env others) =
       add_memory cfg
         (get_current_observation
            (a\<lparr>step_count := step_count a + 1,
               energy := energy a - ENERGY_LOSS_PER_TURN cfg\<rparr>) env others)
         ''do nothing'' ''did nothing''
         (a\<lparr>step_count := step_count a + 1,
            energy := energy a - ENERGY_LOSS_PER_TURN cfg,
            actions_taken := actions_taken a @ [''do nothing'']\<rparr>)
   \<and> map req_retry_message (res_requests (decide_and_act cfg (\<lambda>req. resp) r a env others))
       = [None]
   \<and> att_retry (resolve_action cfg occupied obs x y None
                   (requested_action (\<lambda>req. resp) rq) a1 env) = None"
proof -
  have act: "requested_action (\<lambda>req. resp) q = ''do nothing''" for q
    using assms(4) by (rule requested_action_no_answer)
  show ?thesis
    using assms(1-3)
    by (simp add: decide_and_act_attempt Let_def act resolve_do_nothing make_request_def)
qed

theorem no_answer_is_do_nothing_witness:
  "alive (example_pair ! 0)
   \<and> 0 < energy (example_pair ! 0) - ENERGY_LOSS_PER_TURN example_config
   \<and> RAND_MODE example_config \<noteq> 1
   \<and> res_outcome (decide_and_act example_config (\<lambda>req. Some []) (\<lambda>n. 0) (example_pair ! 0)
                     example_env [example_pair ! 1]) = Inr ''did nothing''
   \<and> res_env (decide_and_act example_config (\<lambda>req. Some []) (\<lambda>n. 0) (example_pair ! 0)
                 example_env [example_pair ! 1]) = example_env"
  using no_answer_is_do_nothing
          [of "example_pair ! 0" example_config "Some []" "\<lambda>n. 0" example_env
              "[example_pair ! 1]"]
  by (simp add: example_agent_fields example_config_fields)

theorem no_answer_counterexample:
  "alive (example_pair ! 0)
   \<and> res_outcome (decide_and_act example_config (\<lambda>req. None) (\<lambda>n. 0) (example_pair ! 0)
                     example_env [example_pair ! 1]) = Inr ''did nothing''
   \<and> res_outcome (decide_and_act example_config (\<lambda>req. None) (\<lambda>n. 0) (example_pair ! 0)
                     example_env [example_pair ! 1]) \<noteq> Inr ''failed to act''
   \<and> att_retry (resolve_action example_config [(0, 1)]
                   (get_current_observation (example_pair ! 0) example_env []) 0 0 None
                   (requested_action (\<lambda>req. None)
                      (make_request (example_pair ! 0) None None))
                   (example_pair ! 0) example_env) = None"
  by (simp add: decide_and_act_attempt Let_def requested_action_def resolve_do_nothing
        example_agent_fields example_config_fields)

text \<open>
  C2: the first answer of the backend is outside the grammar, or a move into the wall;
  a second request, with the retry hint, would be answered with a valid action. The
  step sends one request, without a hint, and ends with the outcome of that first
  attempt.
\<close>

theorem retry_is_never_requested:
  "res_outcome (decide_and_act example_config hint_aware_policy (\<lambda>n. 0) (example_pair ! 0)
                  example_env [example_pair ! 1]) = Inr ''failed to act''
   \<and> map req_retry_message
         (res_requests (decide_and_act example_config hint_aware_policy (\<lambda>n. 0)
                          (example_pair ! 0) example_env [example_pair ! 1])) = [None]
   \<and> res_outcome (decide_and_act example_config wall_then_down_policy (\<lambda>n. 0)
                     (example_pair ! 0) example_env [example_pair ! 1])
       = Inr ''move blocked: other agent or wall''
   \<and> map req_retry_message
         (res_requests (decide_and_act example_config wall_then_down_policy (\<lambda>n. 0)
                          (example_pair ! 0) example_env [example_pair ! 1])) = [None]"
  by (simp add: decide_and_act_attempt Let_def requested_action_def resolve_action_def
        hint_aware_policy_def wall_then_down_policy_def make_request_def startswith_def
        split_def is_space_def new_pos_def example_agent_fields example_config_fields)

text \<open>
  C8: a living agent that survives the energy loss and acts on \<open>move d\<close>, for one of
  the four directions, has a target cell; for a position on the grid the target is the
  cell one step away, clamped to the bounds of the grid. With the random mode off, when
  the decision backend answers \<open>move d\<close>, the move succeeds, and the agent stands on the
  target at once, exactly when the target differs from its position and no other
  living agent stands on it; otherwise the position is kept and the outcome is
  \<open>"move blocked: other agent or wall"\<close>. With the random mode on, \<open>move d\<close> is among
  the actions to choose from exactly when the target differs from the position and no
  other living agent stands on it, and when it is the chosen action the move succeeds
  and the agent stands on the target at once. The example: \<open>move up\<close> at (0,3) on the
  grid of size 5 has the target (0,3) and is blocked.
\<close>

theorem move_succeeds_iff_target_free:
  assumes "alive a" and "0 < energy a - ENERGY_LOSS_PER_TURN cfg" and "is_direction d"
  shows "\<exists>np. new_pos env (fst (position a)) (snd (position a)) d = Some np
     \<and> (0 \<le> fst (position a) \<and> fst (position a) < env_size env
          \<and> 0 \<le> snd (position a) \<and> snd (position a) < env_size env
        \<longrightarrow> np = clamped_target (env_size env) (position a) d)
     \<and> (RAND_MODE cfg \<noteq> 1 \<longrightarrow>
          res_outcome (decide_and_act cfg (\<lambda>req. Some (''move '' @ d)) r a env others) =
            (if np \<noteq> position a \<and> np \<notin> position ` {other \<in> set others. alive other}
             then Inr (''moved '' @ d @ '' (energy: ''
                         @ str_int (energy a - ENERGY_LOSS_PER_TURN cfg) @ '')'')
             else Inr ''move blocked: other agent or wall'')
          \<and> position (res_agent (decide_and_act cfg (\<lambda>req. Some (''move '' @ d)) r a env
                                    others)) =
              (if np \<noteq> position a \<and> np \<notin> position ` {other \<in> set others. alive other}
               then np else position a))
     \<and> (RAND_MODE cfg = 1 \<longrightarrow>
          ((''move '' @ d \<in> set (random_actions env (map position (filter alive others))
                                   (a\<lparr>step_count := step_count a + 1,
                                      energy := energy a - ENERGY_LOSS_PER_TURN cfg\<rparr>)))
             = (np \<noteq> position a \<and> np \<notin> position ` {other \<in> set others. alive other}))
          \<and> (fst (choice r (random_actions env (map position (filter alive others))
                               (a\<lparr>step_count := step_count a + 1,
                                  energy := energy a - ENERGY_LOSS_PER_TURN cfg\<rparr>)))
                = ''move '' @ d
              \<longrightarrow> np \<noteq> position a \<and> np \<notin> position ` {other \<in> set others. alive other}
                \<and> res_outcome (decide_and_act cfg pol r a env others)
                    = Inr (''moved '' @ d @ '' (energy: ''
                             @ str_int (energy a - ENERGY_LOSS_PER_TURN cfg) @ '')'')
                \<and> position (res_agent (decide_and_act cfg pol r a env others)) = np))
     \<and> clamped_target 5 (0, 3) ''up'' = (0, 3)
     \<and> res_outcome (decide_and_act example_config (\<lambda>req. Some ''move up'') (\<lambda>n. 0)
                       edge_agent example_env [])
         = Inr ''move blocked: other agent or wall''
     \<and> position (res_agent (decide_and_act example_config (\<lambda>req. Some ''move up'') (\<lambda>n. 0)
                                edge_agent example_env [])) = (0, 3)"
proof -
  let ?a2 = "a\<lparr>step_count := step_count a + 1,
               energy := energy a - ENERGY_LOSS_PER_TURN cfg\<rparr>"
  let ?occ = "map position (filter alive others)"
  let ?free = "np \<noteq> position a \<and> np \<notin> position ` {other \<in> set others. alive other}"
  obtain np where np: "new_pos env (fst (position a)) (snd (position a)) d = Some np"
    using new_pos_direction [OF assms(3)] by blast
  let ?free = "np \<noteq> position a \<and> np \<notin> position ` {other \<in> set others. alive other}"
  have ne: "''move '' @ d \<noteq> []"
    by simp
  have clamped: "np = clamped_target (env_size env) (position a) d"
    if "0 \<le> fst (position a) \<and> fst (position a) < env_size env
          \<and> 0 \<le> snd (position a) \<and> snd (position a) < env_size env"
    using new_pos_clamped [OF assms(3), of "fst (position a)" env "snd (position a)"] that np
    by simp
  have occ: "set ?occ = position ` {other \<in> set others. alive other}"
    by auto
  have normal: "res_outcome (decide_and_act cfg (\<lambda>req. Some (''move '' @ d)) r a env others) =
            (if ?free
             then Inr (''moved '' @ d @ '' (energy: ''
                         @ str_int (energy a - ENERGY_LOSS_PER_TURN cfg) @ '')'')
             else Inr ''move blocked: other agent or wall'')
          \<and> position (res_agent (decide_and_act cfg (\<lambda>req. Some (''move '' @ d)) r a env
                                    others)) =
              (if ?free then np else position a)"
    if off: "RAND_MODE cfg \<noteq> 1"
  proof -
    note given = decide_and_act_given [OF assms(1,2) off ne, of r env others]
    have out: "res_outcome (decide_and_act cfg (\<lambda>req. Some (''move '' @ d)) r a env others) =
         (if ?free
          then Inr (''moved '' @ d @ '' (energy: ''
                      @ str_int (energy a - ENERGY_LOSS_PER_TURN cfg) @ '')'')
          else Inr ''move blocked: other agent or wall'')"
      unfolding given(1) resolve_move [OF assms(3) np] occ
      by simp
    have pos: "position (res_agent (decide_and_act cfg (\<lambda>req. Some (''move '' @ d)) r a env
                                      others)) =
         (if ?free then np else position a)"
      unfolding given(2) resolve_move [OF assms(3) np] occ
      by simp
    from out pos show ?thesis by blast
  qed
  have np2: "new_pos env (fst (position ?a2)) (snd (position ?a2)) d = Some np"
    using np by simp
  have listed: "(''move '' @ d \<in> set (random_actions env ?occ ?a2)) = ?free"
    unfolding random_actions_move [OF assms(3) np2] occ
    by auto
  have chosen: "?free
                \<and> res_outcome (decide_and_act cfg pol r a env others)
                    = Inr (''moved '' @ d @ '' (energy: ''
                             @ str_int (energy a - ENERGY_LOSS_PER_TURN cfg) @ '')'')
                \<and> position (res_agent (decide_and_act cfg pol r a env others)) = np"
    if on: "RAND_MODE cfg = 1"
      and pick: "fst (choice r (random_actions env ?occ ?a2)) = ''move '' @ d"
  proof -
    have "fst (choice r (random_actions env ?occ ?a2)) \<in> set (random_actions env ?occ ?a2)"
      using random_actions_not_empty by (rule choice_in_set)
    then have "''move '' @ d \<in> set (random_actions env ?occ ?a2)"
      unfolding pick .
    then have free: ?free
      unfolding listed .
    have out: "res_outcome (decide_and_act cfg pol r a env others)
                    = Inr (''moved '' @ d @ '' (energy: ''
                             @ str_int (energy a - ENERGY_LOSS_PER_TURN cfg) @ '')'')"
      unfolding decide_and_act_random [OF assms(1,2) on] random_action_chosen [OF pick]
        random_resolve_move [OF assms(3) np2]
      by simp
    have pos: "position (res_agent (decide_and_act cfg pol r a env others)) = np"
      unfolding decide_and_act_random [OF assms(1,2) on] random_action_chosen [OF pick]
        random_resolve_move [OF assms(3) np2]
      by simp
    from free out pos show ?thesis by blast
  qed
  have up: "is_direction ''up''"
    by (simp add: is_direction_def)
  have edge: "new_pos example_env (fst (position edge_agent)) (snd (position edge_agent)) ''up''
                = Some (0, 3)"
    by (simp add: new_pos_def edge_agent_fields)
  have ex1: "clamped_target 5 (0, 3) ''up'' = (0, 3)"
    by (simp add: clamped_target_def clamp_def displacement_def)
  have live: "alive edge_agent" "0 < energy edge_agent - ENERGY_LOSS_PER_TURN example_config"
    "RAND_MODE example_config \<noteq> 1" "''move '' @ ''up'' \<noteq> []"
    by (simp_all add: edge_agent_fields example_config_fields)
  note given_up = decide_and_act_given [OF live, of "\<lambda>n. 0" example_env "[]"]
  have same: "(\<lambda>req :: request. Some ''move up'') = (\<lambda>req. Some (''move '' @ ''up''))"
    by simp
  have ex2: "res_outcome (decide_and_act example_config (\<lambda>req. Some ''move up'') (\<lambda>n. 0)
                       edge_agent example_env [])
         = Inr ''move blocked: other agent or wall''"
    unfolding same given_up(1) resolve_move [OF up edge]
    by (simp add: edge_agent_fields)
  have ex3: "position (res_agent (decide_and_act example_config (\<lambda>req. Some ''move up'') (\<lambda>n. 0)
                                edge_agent example_env [])) = (0, 3)"
    unfolding same given_up(2) resolve_move [OF up edge]
    by (simp add: edge_agent_fields)
  from np clamped normal listed chosen ex1 ex2 ex3 show ?thesis
    by blast
qed

theorem move_succeeds_iff_target_free_witness:
  "alive edge_agent \<and> 0 < energy edge_agent - ENERGY_LOSS_PER_TURN example_config
   \<and> RAND_MODE example_config \<noteq> 1 \<and> is_direction ''down''
   \<and> new_pos example_env (fst (position edge_agent)) (snd (position edge_agent)) ''down''
       = Some (1, 3)
   \<and> clamped_target (env_size example_env) (position edge_agent) ''down'' = (1, 3)
   \<and> res_outcome (decide_and_act example_config (\<lambda>req. Some (''move '' @ ''down'')) (\<lambda>n. 0)
                     edge_agent example_env [])
       = Inr (''moved '' @ ''down'' @ '' (energy: '' @ str_int 9 @ '')'')
   \<and> position (res_agent (decide_and_act example_config (\<lambda>req. Some (''move '' @ ''down''))
                              (\<lambda>n. 0) edge_agent example_env [])) = (1, 3)
   \<and> RAND_MODE random_config = 1
   \<and> fst (choice (\<lambda>n. 0)
            (random_actions example_env (map position (filter alive []))
               (edge_agent\<lparr>step_count := step_count edge_agent + 1,
                  energy := energy edge_agent - ENERGY_LOSS_PER_TURN random_config\<rparr>)))
       = ''move '' @ ''down''
   \<and> res_outcome (decide_and_act random_config (\<lambda>req. None) (\<lambda>n. 0) edge_agent
                     example_env [])
       = Inr (''moved '' @ ''down'' @ '' (energy: '' @ str_int 9 @ '')'')
   \<and> position (res_agent (decide_and_act random_config (\<lambda>req. None) (\<lambda>n. 0) edge_agent
                              example_env [])) = (1, 3)"
proof -
  have live: "alive edge_agent" "0 < energy edge_agent - ENERGY_LOSS_PER_TURN example_config"
    "is_direction ''down''"
    by (simp_all add: edge_agent_fields example_config_fields is_direction_def)
  have rlive: "alive edge_agent" "0 < energy edge_agent - ENERGY_LOSS_PER_TURN random_config"
    "is_direction ''down''"
    by (simp_all add: edge_agent_fields example_config_fields is_direction_def
          random_config_def)
  have modes: "RAND_MODE example_config \<noteq> 1" "RAND_MODE random_config = 1"
    "ENERGY_LOSS_PER_TURN random_config = 1"
    by (simp_all add: example_config_fields random_config_def)
  have tgt: "new_pos example_env (fst (position edge_agent)) (snd (position edge_agent)) ''down''
       = Some (1, 3)"
    by (simp add: new_pos_def edge_agent_fields example_env_def)
  have cl: "clamped_target (env_size example_env) (position edge_agent) ''down'' = (1, 3)"
    by (simp add: clamped_target_def clamp_def displacement_def edge_agent_fields
          example_env_def)
  have pick: "fst (choice (\<lambda>n. 0)
            (random_actions example_env (map position (filter alive []))
               (edge_agent\<lparr>step_count := step_count edge_agent + 1,
                  energy := energy edge_agent - ENERGY_LOSS_PER_TURN random_config\<rparr>)))
       = ''move '' @ ''down''"
    by (simp add: choice_def random_actions_def new_pos_def get_cell_content_def
          example_env_def edge_agent_def new_agent_def)
  have normal: "res_outcome (decide_and_act example_config (\<lambda>req. Some (''move '' @ ''down''))
                  (\<lambda>n. 0) edge_agent example_env [])
       = Inr (''moved '' @ ''down'' @ '' (energy: '' @ str_int 9 @ '')'')
     \<and> position (res_agent (decide_and_act example_config (\<lambda>req. Some (''move '' @ ''down''))
                              (\<lambda>n. 0) edge_agent example_env [])) = (1, 3)"
    using move_succeeds_iff_target_free
            [OF live, where env = example_env and r = "\<lambda>n. 0" and others = "[]"] tgt modes
    by (clarsimp simp add: edge_agent_fields example_config_fields)
  have random: "res_outcome (decide_and_act random_config (\<lambda>req. None) (\<lambda>n. 0) edge_agent
                     example_env [])
       = Inr (''moved '' @ ''down'' @ '' (energy: '' @ str_int 9 @ '')'')
     \<and> position (res_agent (decide_and_act random_config (\<lambda>req. None) (\<lambda>n. 0) edge_agent
                              example_env [])) = (1, 3)"
    using move_succeeds_iff_target_free
            [OF rlive, where env = example_env and r = "\<lambda>n. 0" and others = "[]"
               and pol = "\<lambda>req. None"] tgt modes pick
    by (clarsimp simp add: edge_agent_fields)
  from live modes tgt cl pick normal random show ?thesis
    by blast
qed

text \<open>
  C1: in the example roster Agent2 makes an offer to Agent3 and receives one from
  Agent4. Whichever of the two orders the shuffle leaves, the first acceptance
  executes one of the offers and cancels the other as a conflict, and the second
  acceptance then decides on the list of offers taken before the loop, accepts the
  cancelled offer and executes it: the ledger of the step holds two trades of Agent2.
\<close>

theorem cancelled_offer_still_executes:
  "completed_trades (ph_market (process_trading_phase example_config (\<lambda>xs. xs) (\<lambda>n. 0)
                                  example_roster new_market 1))
     = [offer_4_to_2, offer_2_to_3]
   \<and> completed_trades (ph_market (process_trading_phase example_config rev (\<lambda>n. 0)
                                     example_roster new_market 1))
     = [offer_2_to_3, offer_4_to_2]
   \<and> trades_of ''Agent2''
         (completed_trades (ph_market (process_trading_phase example_config (\<lambda>xs. xs)
                                         (\<lambda>n. 0) example_roster new_market 1))) = 2
   \<and> trades_of ''Agent2''
         (completed_trades (ph_market (process_trading_phase example_config rev
                                         (\<lambda>n. 0) example_roster new_market 1))) = 2
   \<and> ph_events (process_trading_phase example_config (\<lambda>xs. xs) (\<lambda>n. 0)
                   example_roster new_market 1)
     = [PhaseHeader 1, Phase1Line, OfferEvent offer_2_to_3, OfferEvent offer_4_to_2,
        Phase2Line, AcceptedEvent offer_4_to_2, CancelledEvent offer_2_to_3,
        AcceptedEvent offer_2_to_3, Phase2Complete]"
proof (intro conjI)
  show "completed_trades (ph_market (process_trading_phase example_config (\<lambda>xs. xs) (\<lambda>n. 0)
                                  example_roster new_market 1))
     = [offer_4_to_2, offer_2_to_3]"
    by code_simp
  show "completed_trades (ph_market (process_trading_phase example_config rev (\<lambda>n. 0)
                                     example_roster new_market 1))
     = [offer_2_to_3, offer_4_to_2]"
    by code_simp
  show "trades_of ''Agent2''
         (completed_trades (ph_market (process_trading_phase example_config (\<lambda>xs. xs)
                                         (\<lambda>n. 0) example_roster new_market 1))) = 2"
    by code_simp
  show "trades_of ''Agent2''
         (completed_trades (ph_market (process_trading_phase example_config rev
                                         (\<lambda>n. 0) example_roster new_market 1))) = 2"
    by code_simp
  show "ph_events (process_trading_phase example_config (\<lambda>xs. xs) (\<lambda>n. 0)
                   example_roster new_market 1)
     = [PhaseHeader 1, Phase1Line, OfferEvent offer_2_to_3, OfferEvent offer_4_to_2,
        Phase2Line, AcceptedEvent offer_4_to_2, CancelledEvent offer_2_to_3,
        AcceptedEvent offer_2_to_3, Phase2Complete]"
    by code_simp
qed

text \<open>
  C9: in a world where no inventory count is negative and no pending offer has a
  negative quantity, after any run of operations (steps of agents with any decision
  backend, in either mode; offers added to the market and offers executed, with
  quantities that are not negative; whole trading phases, whatever order the shuffle
  leaves; replenishments) no inventory count of any agent is negative.
\<close>

theorem inventories_never_negative:
  assumes "\<forall>a \<in> set (w_agents w). nonneg_inventory a"
    and "\<forall>off \<in> set (offers (w_market w)). nonneg_offer off"
    and "\<forall>op \<in> set ops. well_formed op"
  shows "\<forall>a \<in> set (w_agents (run cfg ops w)). 0 \<le> red (inventory a) \<and> 0 \<le> green (inventory a)"
  using run_nonneg [OF assms, of cfg] by (simp add: nonneg_inventory_def)

theorem inventories_never_negative_witness:
  "list_all nonneg_inventory (w_agents example_world)
   \<and> list_all nonneg_offer (offers (w_market example_world))
   \<and> list_all well_formed example_ops
   \<and> list_all (\<lambda>a. 0 \<le> red (inventory a) \<and> 0 \<le> green (inventory a))
        (w_agents (run example_config example_ops example_world))
   \<and> map inventory (w_agents (run example_config example_ops example_world))
       = [\<lparr>red = 0, green = 0\<rparr>, \<lparr>red = 1, green = 0\<rparr>, \<lparr>red = 1, green = 0\<rparr>,
          \<lparr>red = 0, green = 1\<rparr>]"
proof -
  have h1: "\<forall>a \<in> set (w_agents example_world). nonneg_inventory a"
    by (simp add: example_world_def example_roster_def new_agent_def nonneg_inventory_def)
  have h2: "\<forall>off \<in> set (offers (w_market example_world)). nonneg_offer off"
    by (simp add: example_world_def new_market_def)
  have h3: "\<forall>op \<in> set example_ops. well_formed op"
    by (simp add: example_ops_def rearranges_def offer_4_to_2_def nonneg_offer_def)
  have ev: "map inventory (w_agents (run example_config example_ops example_world))
       = [\<lparr>red = 0, green = 0\<rparr>, \<lparr>red = 1, green = 0\<rparr>, \<lparr>red = 1, green = 0\<rparr>,
          \<lparr>red = 0, green = 1\<rparr>]"
    by code_simp
  from inventories_never_negative [OF h1 h2 h3, of example_config] h1 h2 h3 ev
  show ?thesis
    by (simp only: list_all_iff simp_thms)
qed

text \<open>
  C7, as amended: a living agent whose energy, less the loss per turn, is not positive
  ends its step dead, with the outcome \<open>"ran out of energy"\<close>, no request to the
  decision backend, the environment unchanged, and no change to itself but the step
  counter (incremented on entry), the energy and the alive flag. A living agent that
  survives the loss runs the whole action part of the step, in either mode, on itself
  with the energy already decremented; every request that the step sends carries the
  energy after the loss; and the energy at the end of the step of a living agent is
  the energy at the start, less the loss per turn, plus the consumption rate of what
  it ate in the step, if it ate. A dead agent is left exactly as it is by its own
  later steps (outcome \<open>"inactive"\<close>, no request), makes no offer, and is left exactly
  as it is by every run of operations: the alive flag never becomes true again.
\<close>

theorem starved_agent_stays_dead:
  "(alive a \<and> energy a - ENERGY_LOSS_PER_TURN cfg \<le> 0
      \<longrightarrow> decide_and_act cfg pol r a env others =
            \<lparr>res_outcome = Inr ''ran out of energy'',
             res_agent = a\<lparr>step_count := step_count a + 1,
                           energy := energy a - ENERGY_LOSS_PER_TURN cfg, alive := False\<rparr>,
             res_env = env, res_requests = [], res_rng = r\<rparr>)
   \<and> (alive a \<and> 0 < energy a - ENERGY_LOSS_PER_TURN cfg
      \<longrightarrow> decide_and_act cfg pol r a env others =
            (if RAND_MODE cfg = 1 then
               random_action cfg r env (map position (filter alive others))
                 (a\<lparr>step_count := step_count a + 1,
                    energy := energy a - ENERGY_LOSS_PER_TURN cfg\<rparr>)
             else
               retry_loop 2 cfg pol (map position (filter alive others))
                 (get_current_observation
                    (a\<lparr>step_count := step_count a + 1,
                       energy := energy a - ENERGY_LOSS_PER_TURN cfg\<rparr>) env others)
                 (fst (position a)) (snd (position a))
                 (get_cell_content env (fst (position a)) (snd (position a))) r None []
                 (a\<lparr>step_count := step_count a + 1,
                    energy := energy a - ENERGY_LOSS_PER_TURN cfg\<rparr>)
                 env))
   \<and> (alive a
      \<longrightarrow> energy (res_agent (decide_and_act cfg pol r a env others))
            = energy a - ENERGY_LOSS_PER_TURN cfg
                + energy_gained a (res_outcome (decide_and_act cfg pol r a env others)))
   \<and> (\<forall>req \<in> set (res_requests (decide_and_act cfg pol r a env others)).
         req_energy req = energy a - ENERGY_LOSS_PER_TURN cfg)
   \<and> (\<not> alive a
      \<longrightarrow> decide_and_act cfg pol r a env others =
            \<lparr>res_outcome = Inr ''inactive'', res_agent = a, res_env = env,
             res_requests = [], res_rng = r\<rparr>)
   \<and> (\<not> alive a \<longrightarrow> make_offer cfg stp a s = s)
   \<and> (\<not> alive (w_agents w ! k) \<longrightarrow> w_agents (run cfg ops w) ! k = w_agents w ! k)"
proof (intro conjI impI ballI)
  assume "alive a \<and> energy a - ENERGY_LOSS_PER_TURN cfg \<le> 0"
  then show "decide_and_act cfg pol r a env others =
            \<lparr>res_outcome = Inr ''ran out of energy'',
             res_agent = a\<lparr>step_count := step_count a + 1,
                           energy := energy a - ENERGY_LOSS_PER_TURN cfg, alive := False\<rparr>,
             res_env = env, res_requests = [], res_rng = r\<rparr>"
    by (simp add: decide_and_act_starved)
next
  assume "alive a \<and> 0 < energy a - ENERGY_LOSS_PER_TURN cfg"
  then have "alive a" "0 < energy a - ENERGY_LOSS_PER_TURN cfg"
    by simp_all
  then show "decide_and_act cfg pol r a env others =
            (if RAND_MODE cfg = 1 then
               random_action cfg r env (map position (filter alive others))
                 (a\<lparr>step_count := step_count a + 1,
                    energy := energy a - ENERGY_LOSS_PER_TURN cfg\<rparr>)
             else
               retry_loop 2 cfg pol (map position (filter alive others))
                 (get_current_observation
                    (a\<lparr>step_count := step_count a + 1,
                       energy := energy a - ENERGY_LOSS_PER_TURN cfg\<rparr>) env others)
                 (fst (position a)) (snd (position a))
                 (get_cell_content env (fst (position a)) (snd (position a))) r None []
                 (a\<lparr>step_count := step_count a + 1,
                    energy := energy a - ENERGY_LOSS_PER_TURN cfg\<rparr>)
                 env)"
    by (rule decide_and_act_survivor)
next
  assume "alive a"
  then show "energy (res_agent (decide_and_act cfg pol r a env others))
            = energy a - ENERGY_LOSS_PER_TURN cfg
                + energy_gained a (res_outcome (decide_and_act cfg pol r a env others))"
    by (rule decide_and_act_energy)
next
  fix req
  assume "req \<in> set (res_requests (decide_and_act cfg pol r a env others))"
  then show "req_energy req = energy a - ENERGY_LOSS_PER_TURN cfg"
    by (simp add: decide_and_act_requests make_request_def split: if_splits)
next
  assume "\<not> alive a"
  then show "decide_and_act cfg pol r a env others =
            \<lparr>res_outcome = Inr ''inactive'', res_agent = a, res_env = env,
             res_requests = [], res_rng = r\<rparr>"
    by (rule decide_and_act_dead)
next
  assume "\<not> alive a"
  then show "make_offer cfg stp a s = s"
    by (rule make_offer_dead)
next
  assume "\<not> alive (w_agents w ! k)"
  then show "w_agents (run cfg ops w) ! k = w_agents w ! k"
    by (rule run_dead_unchanged)
qed

theorem starved_agent_stays_dead_witness:
  "alive (edge_agent\<lparr>energy := 1\<rparr>)
   \<and> energy (edge_agent\<lparr>energy := 1\<rparr>) - ENERGY_LOSS_PER_TURN example_config \<le> 0
   \<and> res_outcome (decide_and_act example_config (\<lambda>req. Some ''collect'') (\<lambda>n. 0)
                     (edge_agent\<lparr>energy := 1\<rparr>) example_env []) = Inr ''ran out of energy''
   \<and> \<not> alive (res_agent (decide_and_act example_config (\<lambda>req. Some ''collect'') (\<lambda>n. 0)
                             (edge_agent\<lparr>energy := 1\<rparr>) example_env []))
   \<and> res_requests (decide_and_act example_config (\<lambda>req. Some ''collect'') (\<lambda>n. 0)
                      (edge_agent\<lparr>energy := 1\<rparr>) example_env []) = []
   \<and> \<not> alive (w_agents dead_world ! 1)
   \<and> w_agents (run example_config example_ops dead_world) ! 1 = w_agents dead_world ! 1
   \<and> alive edge_agent
   \<and> res_outcome (decide_and_act example_config (\<lambda>req. Some ''do nothing'') (\<lambda>n. 0)
                     edge_agent example_env []) = Inr ''did nothing''
   \<and> energy (res_agent (decide_and_act example_config (\<lambda>req. Some ''do nothing'') (\<lambda>n. 0)
                            edge_agent example_env [])) = 9
   \<and> map req_energy
         (res_requests (decide_and_act example_config (\<lambda>req. Some ''do nothing'') (\<lambda>n. 0)
                          edge_agent example_env [])) = [9]"
proof -
  have dead: "\<not> alive (w_agents dead_world ! 1)"
    by (simp add: dead_world_def example_world_def example_roster_def)
  have live: "alive edge_agent" "0 < energy edge_agent - ENERGY_LOSS_PER_TURN example_config"
    "RAND_MODE example_config \<noteq> 1" "''do nothing'' \<noteq> []"
    by (simp_all add: edge_agent_fields example_config_fields)
  have out: "res_outcome (decide_and_act example_config (\<lambda>req. Some ''do nothing'') (\<lambda>n. 0)
                     edge_agent example_env []) = Inr ''did nothing''"
    by (simp add: decide_and_act_given(1) [OF live] resolve_do_nothing)
  have reqs: "length (res_requests (decide_and_act example_config (\<lambda>req. Some ''do nothing'')
                 (\<lambda>n. 0) edge_agent example_env [])) = 1"
    using live by (simp add: decide_and_act_requests)
  note starved = starved_agent_stays_dead
         [of "edge_agent\<lparr>energy := 1\<rparr>" example_config "\<lambda>req. Some ''collect''" "\<lambda>n. 0"
             example_env "[]" 1 "phase_start example_pair" dead_world 1 example_ops]
  note survivor = starved_agent_stays_dead
         [of edge_agent example_config "\<lambda>req. Some ''do nothing''" "\<lambda>n. 0"
             example_env "[]" 1 "phase_start example_pair" dead_world 1 example_ops]
  have first: "alive (edge_agent\<lparr>energy := 1\<rparr>)
   \<and> energy (edge_agent\<lparr>energy := 1\<rparr>) - ENERGY_LOSS_PER_TURN example_config \<le> 0
   \<and> res_outcome (decide_and_act example_config (\<lambda>req. Some ''collect'') (\<lambda>n. 0)
                     (edge_agent\<lparr>energy := 1\<rparr>) example_env []) = Inr ''ran out of energy''
   \<and> \<not> alive (res_agent (decide_and_act example_config (\<lambda>req. Some ''collect'') (\<lambda>n. 0)
                             (edge_agent\<lparr>energy := 1\<rparr>) example_env []))
   \<and> res_requests (decide_and_act example_config (\<lambda>req. Some ''collect'') (\<lambda>n. 0)
                      (edge_agent\<lparr>energy := 1\<rparr>) example_env []) = []
   \<and> \<not> alive (w_agents dead_world ! 1)
   \<and> w_agents (run example_config example_ops dead_world) ! 1 = w_agents dead_world ! 1"
  proof -
    have pre: "alive (edge_agent\<lparr>energy := 1\<rparr>)
       \<and> energy (edge_agent\<lparr>energy := 1\<rparr>) - ENERGY_LOSS_PER_TURN example_config \<le> 0"
      by (simp add: edge_agent_fields example_config_fields)
    with starved
    have eq: "decide_and_act example_config (\<lambda>req. Some ''collect'') (\<lambda>n. 0)
                (edge_agent\<lparr>energy := 1\<rparr>) example_env [] =
            \<lparr>res_outcome = Inr ''ran out of energy'',
             res_agent = edge_agent\<lparr>energy := 1\<rparr>
               \<lparr>step_count := step_count (edge_agent\<lparr>energy := 1\<rparr>) + 1,
                energy := energy (edge_agent\<lparr>energy := 1\<rparr>)
                            - ENERGY_LOSS_PER_TURN example_config,
                alive := False\<rparr>,
             res_env = example_env, res_requests = [], res_rng = (\<lambda>n. 0)\<rparr>"
      by blast
    from starved dead
    have frozen: "w_agents (run example_config example_ops dead_world) ! 1
                    = w_agents dead_world ! 1"
      by blast
    from pre dead frozen show ?thesis
      by (simp add: eq)
  qed
  have e9: "energy (res_agent (decide_and_act example_config (\<lambda>req. Some ''do nothing'') (\<lambda>n. 0)
                            edge_agent example_env [])) = 9"
  proof -
    from survivor live(1)
    have "energy (res_agent (decide_and_act example_config (\<lambda>req. Some ''do nothing'') (\<lambda>n. 0)
                            edge_agent example_env []))
      = energy edge_agent - ENERGY_LOSS_PER_TURN example_config
          + energy_gained edge_agent
              (res_outcome (decide_and_act example_config (\<lambda>req. Some ''do nothing'')
                              (\<lambda>n. 0) edge_agent example_env []))"
      by blast
    then show ?thesis
      by (simp add: out edge_agent_fields example_config_fields)
  qed
  have r9: "\<forall>req \<in> set (res_requests (decide_and_act example_config (\<lambda>req. Some ''do nothing'')
                 (\<lambda>n. 0) edge_agent example_env [])). req_energy req = 9"
  proof -
    from survivor
    have "\<forall>req \<in> set (res_requests (decide_and_act example_config (\<lambda>req. Some ''do nothing'')
                 (\<lambda>n. 0) edge_agent example_env [])).
            req_energy req = energy edge_agent - ENERGY_LOSS_PER_TURN example_config"
      by blast
    then show ?thesis
      by (simp add: edge_agent_fields example_config_fields)
  qed
  have "map req_energy
         (res_requests (decide_and_act example_config (\<lambda>req. Some ''do nothing'') (\<lambda>n. 0)
                          edge_agent example_env [])) = [9]"
    using reqs r9
    by (cases "res_requests (decide_and_act example_config (\<lambda>req. Some ''do nothing'')
                 (\<lambda>n. 0) edge_agent example_env [])") simp_all
  with first live(1) out e9 show ?thesis
    by blast
qed

theorem starved_step_is_counted_counterexample:
  "alive (edge_agent\<lparr>energy := 1\<rparr>)
   \<and> energy (edge_agent\<lparr>energy := 1\<rparr>) - ENERGY_LOSS_PER_TURN example_config \<le> 0
   \<and> res_outcome (decide_and_act example_config (\<lambda>req. Some ''collect'') (\<lambda>n. 0)
                     (edge_agent\<lparr>energy := 1\<rparr>) example_env []) = Inr ''ran out of energy''
   \<and> step_count (edge_agent\<lparr>energy := 1\<rparr>) = 0
   \<and> step_count (res_agent (decide_and_act example_config (\<lambda>req. Some ''collect'') (\<lambda>n. 0)
                               (edge_agent\<lparr>energy := 1\<rparr>) example_env [])) = 1
   \<and> res_agent (decide_and_act example_config (\<lambda>req. Some ''collect'') (\<lambda>n. 0)
                   (edge_agent\<lparr>energy := 1\<rparr>) example_env [])
       \<noteq> edge_agent\<lparr>energy := 0, alive := False\<rparr>"
proof -
  have starved: "alive (edge_agent\<lparr>energy := 1\<rparr>)"
    "energy (edge_agent\<lparr>energy := 1\<rparr>) - ENERGY_LOSS_PER_TURN example_config \<le> 0"
    by (simp_all add: edge_agent_fields example_config_fields)
  have count: "step_count edge_agent = 0"
    by (simp add: edge_agent_def new_agent_def)
  have "step_count (edge_agent\<lparr>energy := 0, alive := False\<rparr>) = 0"
    by (simp add: count)
  moreover have "step_count (res_agent (decide_and_act example_config (\<lambda>req. Some ''collect'')
                    (\<lambda>n. 0) (edge_agent\<lparr>energy := 1\<rparr>) example_env [])) = 1"
    by (simp add: decide_and_act_starved [OF starved] count)
  ultimately have "res_agent (decide_and_act example_config (\<lambda>req. Some ''collect'') (\<lambda>n. 0)
                   (edge_agent\<lparr>energy := 1\<rparr>) example_env [])
       \<noteq> edge_agent\<lparr>energy := 0, alive := False\<rparr>"
    by auto
  then show ?thesis
    using starved by (simp add: decide_and_act_starved [OF starved] count)
qed

end
